theory Spec2Isabelle
  imports Complex_Main "HOL-Library.Monad_Syntax"
begin

section \<open>Python values\<close>

text \<open>
  The values that \<^verbatim>\<open>json.loads\<close> and \<^verbatim>\<open>response.json()\<close> hand to the program:
  \<^verbatim>\<open>None\<close>, booleans, integers, floats, strings, lists and dictionaries. Python floats
  are modelled as real numbers (rounding, infinities and NaN are not modelled). A dictionary
  is an association list read with \<open>map_of\<close>.
\<close>

datatype json =
    JNull
  | JBool bool
  | JInt int
  | JFloat real
  | JStr string
  | JArr "json list"
  | JObj "(string \<times> json) list"

text \<open>The exceptions the modelled code can raise or catch.\<close>

datatype exn =
    KeyError
  | IndexError
  | TypeError
  | AttributeError
  | ZeroDivisionError
  | UnicodeDecodeError
  | OverflowError
  | ClientError string

section \<open>The metrics record\<close>

text \<open>
  The dataclass \<^verbatim>\<open>RequestMetrics\<close>. An \<^verbatim>\<open>Optional\<close> field is an \<open>option\<close>. Two fields
  receive values that the code stores without converting them, so they hold an arbitrary
  Python value: \<open>model_name\<close> (\<open>JNull\<close> is \<^verbatim>\<open>None\<close>) and \<open>generated_text\<close>.
\<close>

record RequestMetrics =
  request_id :: string
  trace_id :: string
  success :: bool
  error_message :: string
  send_time :: "real option"
  client_e2e_latency :: real
  client_ttft :: "real option"
  client_tpot :: "real option"
  client_itl :: "real option"
  server_queue_time :: "real option"
  server_prefill_time :: "real option"
  server_decode_time :: "real option"
  server_inference_time :: "real option"
  server_e2e_time :: "real option"
  server_ttft :: "real option"
  prompt_tokens :: "int option"
  completion_tokens :: "int option"
  model_name :: json
  temperature :: "real option"
  top_p :: "real option"
  max_tokens :: "int option"
  generated_text :: json
  client_itl_list :: "real list"

text \<open>
  The dataclass constructor with the defaults of the source: only \<^verbatim>\<open>request_id\<close> and
  \<^verbatim>\<open>trace_id\<close> are required; \<^verbatim>\<open>client_e2e_latency\<close> defaults to \<open>0.0\<close>, not to \<^verbatim>\<open>None\<close>.
\<close>

definition RequestMetrics_init :: "string \<Rightarrow> string \<Rightarrow> RequestMetrics" where
  "RequestMetrics_init rid tid =
     \<lparr> request_id = rid, trace_id = tid, success = False, error_message = '''',
       send_time = None,
       client_e2e_latency = 0, client_ttft = None, client_tpot = None, client_itl = None,
       server_queue_time = None, server_prefill_time = None, server_decode_time = None,
       server_inference_time = None, server_e2e_time = None, server_ttft = None,
       prompt_tokens = None, completion_tokens = None,
       model_name = JNull, temperature = None, top_p = None, max_tokens = None,
       generated_text = JStr '''', client_itl_list = [] \<rparr>"

section \<open>The summary aggregator\<close>

record BenchmarkSummary =
  total_requests :: int
  successful_requests :: int
  failed_requests :: int
  benchmark_duration :: real
  total_input_tokens :: int
  total_output_tokens :: int
  request_throughput :: real
  output_token_throughput :: real
  total_token_throughput :: real
  ttft_values :: "real list"
  mean_ttft :: real
  median_ttft :: real
  p99_ttft :: real
  tpot_values :: "real list"
  mean_tpot :: real
  median_tpot :: real
  p99_tpot :: real
  itl_values :: "real list"
  mean_itl :: real
  median_itl :: real
  p99_itl :: real
  queue_time_values :: "real list"
  mean_queue_time :: real
  median_queue_time :: real
  p99_queue_time :: real

definition BenchmarkSummary_init :: BenchmarkSummary where
  "BenchmarkSummary_init =
     \<lparr> total_requests = 0, successful_requests = 0, failed_requests = 0,
       benchmark_duration = 0,
       total_input_tokens = 0, total_output_tokens = 0,
       request_throughput = 0, output_token_throughput = 0, total_token_throughput = 0,
       ttft_values = [], mean_ttft = 0, median_ttft = 0, p99_ttft = 0,
       tpot_values = [], mean_tpot = 0, median_tpot = 0, p99_tpot = 0,
       itl_values = [], mean_itl = 0, median_itl = 0, p99_itl = 0,
       queue_time_values = [], mean_queue_time = 0, median_queue_time = 0,
       p99_queue_time = 0 \<rparr>"

text \<open>
  The three numpy reductions that \<^verbatim>\<open>calculate_stats\<close> calls, over the reals:
  the arithmetic mean, the median of the sorted values, and the percentile with numpy's
  default linear interpolation between the two nearest ranks. The code calls them on
  non-empty lists only.
\<close>

definition np_mean :: "real list \<Rightarrow> real" where
  "np_mean xs = sum_list xs / real (length xs)"

definition np_median :: "real list \<Rightarrow> real" where
  "np_median xs =
     (let s = sort xs; n = length s
      in if odd n then s ! (n div 2) else (s ! (n div 2 - 1) + s ! (n div 2)) / 2)"

definition np_percentile :: "real list \<Rightarrow> real \<Rightarrow> real" where
  "np_percentile xs q =
     (let s = sort xs; n = length s;
          h = (real n - 1) * q / 100;
          lo = nat \<lfloor>h\<rfloor>;
          hi = min (lo + 1) (n - 1)
      in s ! lo + (h - real lo) * (s ! hi - s ! lo))"

definition calculate_stats :: "real list \<Rightarrow> real \<times> real \<times> real" where
  "calculate_stats values =
     (if values = [] then (0, 0, 0)
      else (np_mean values, np_median values, np_percentile values 99))"

text \<open>\<^verbatim>\<open>x or 0\<close> for an optional integer: \<^verbatim>\<open>None\<close> and \<open>0\<close> both give \<open>0\<close>.\<close>

definition or_zero :: "int option \<Rightarrow> int" where
  "or_zero x = (case x of None \<Rightarrow> 0 | Some n \<Rightarrow> (if n = 0 then 0 else n))"

text \<open>
  The loop over the successful records: each iteration appends to the four lists
  \<^verbatim>\<open>ttft_values\<close>, \<^verbatim>\<open>tpot_values\<close>, \<^verbatim>\<open>itl_values\<close>, \<^verbatim>\<open>queue_time_values\<close>.
\<close>

fun collect_latencies ::
  "RequestMetrics list \<Rightarrow> real list \<times> real list \<times> real list \<times> real list
     \<Rightarrow> real list \<times> real list \<times> real list \<times> real list" where
  "collect_latencies [] acc = acc"
| "collect_latencies (result # rest) (ttft, tpot, itl, qt) =
     collect_latencies rest
       ((case client_ttft result of
           Some t \<Rightarrow> ttft @ [t]
         | None \<Rightarrow> (case server_ttft result of Some t \<Rightarrow> ttft @ [t] | None \<Rightarrow> ttft)),
        (case client_tpot result of Some t \<Rightarrow> tpot @ [t] | None \<Rightarrow> tpot),
        (if client_itl_list result \<noteq> []
         then itl @ map (\<lambda>x. x * 1000) (client_itl_list result) else itl),
        (case server_queue_time result of Some t \<Rightarrow> qt @ [t] | None \<Rightarrow> qt))"

definition calculate_benchmark_summary ::
  "RequestMetrics list \<Rightarrow> real \<Rightarrow> real \<Rightarrow> BenchmarkSummary" where
  "calculate_benchmark_summary results start_time end_time =
     (let n_total = int (length results);
          n_success = sum_list (map (\<lambda>r. 1) (filter success results));
          summary = BenchmarkSummary_init
            \<lparr> total_requests := n_total,
              successful_requests := n_success,
              failed_requests := n_total - n_success,
              benchmark_duration := end_time - start_time \<rparr>;
          successful_results = filter success results
      in if successful_results = [] then summary
         else
           let summary = summary
                 \<lparr> total_input_tokens :=
                     sum_list (map (\<lambda>r. or_zero (prompt_tokens r)) successful_results),
                   total_output_tokens :=
                     sum_list (map (\<lambda>r. or_zero (completion_tokens r)) successful_results) \<rparr>;
               summary =
                 (if benchmark_duration summary > 0
                  then summary
                    \<lparr> request_throughput :=
                        real_of_int (successful_requests summary) / benchmark_duration summary,
                      output_token_throughput :=
                        real_of_int (total_output_tokens summary) / benchmark_duration summary,
                      total_token_throughput :=
                        real_of_int (total_input_tokens summary + total_output_tokens summary)
                          / benchmark_duration summary \<rparr>
                  else summary);
               (ttft, tpot, itl, qt) = collect_latencies successful_results ([], [], [], []);
               (ttft_mean, ttft_median, ttft_p99) = calculate_stats ttft;
               (tpot_mean, tpot_median, tpot_p99) = calculate_stats tpot;
               (itl_mean, itl_median, itl_p99) = calculate_stats itl;
               (qt_mean, qt_median, qt_p99) = calculate_stats qt
           in summary
             \<lparr> ttft_values := ttft, mean_ttft := ttft_mean, median_ttft := ttft_median,
               p99_ttft := ttft_p99,
               tpot_values := tpot, mean_tpot := tpot_mean, median_tpot := tpot_median,
               p99_tpot := tpot_p99,
               itl_values := itl, mean_itl := itl_mean, median_itl := itl_median,
               p99_itl := itl_p99,
               queue_time_values := qt, mean_queue_time := qt_mean,
               median_queue_time := qt_median, p99_queue_time := qt_p99 \<rparr>)"

section \<open>The rate-controlled scheduler\<close>

text \<open>
  \<^verbatim>\<open>RateLimitedBenchmark.__init__\<close> stores the target rate and the spacing between two
  launches: \<^verbatim>\<open>self.interval = 1.0 / rps if rps > 0 else 0\<close>.
\<close>

record RateLimitedBenchmark =
  rps :: real
  interval :: real

definition RateLimitedBenchmark_init :: "real \<Rightarrow> RateLimitedBenchmark" where
  "RateLimitedBenchmark_init r = \<lparr> rps = r, interval = (if r > 0 then 1 / r else 0) \<rparr>"

text \<open>
  The units of work \<^verbatim>\<open>run_benchmark\<close> creates. \<open>SendSingle i p\<close> is the coroutine
  \<^verbatim>\<open>_send_single_request(p, i, ...)\<close>, which sends at once; \<open>SendWithDelay i p d\<close> is
  \<^verbatim>\<open>_send_request_with_delay(p, i, d, ...)\<close>, which first awaits \<^verbatim>\<open>asyncio.sleep(d)\<close> and
  then runs \<^verbatim>\<open>_send_single_request(p, i, ...)\<close>.
\<close>

datatype task =
    SendSingle nat string
  | SendWithDelay nat string real

fun start_delay :: "task \<Rightarrow> real" where
  "start_delay (SendSingle i p) = 0"
| "start_delay (SendWithDelay i p d) = d"

fun task_index :: "task \<Rightarrow> nat" where
  "task_index (SendSingle i p) = i"
| "task_index (SendWithDelay i p d) = i"

fun task_prompt :: "task \<Rightarrow> string" where
  "task_prompt (SendSingle i p) = p"
| "task_prompt (SendWithDelay i p d) = p"

text \<open>
  The scheduling part of \<^verbatim>\<open>run_benchmark\<close>: the list of tasks it creates, in creation
  order, or the exception it raises before creating any. Both loops create every task
  without awaiting one, so the list does not depend on any request's outcome. Before the
  branch on the rate the function prints
  \<^verbatim>\<open>f"Estimated duration: {len(prompts) / self.rps:.1f} seconds"\<close>; Python's true
  division raises \<^verbatim>\<open>ZeroDivisionError\<close> when the divisor is zero.
\<close>

definition run_benchmark :: "RateLimitedBenchmark \<Rightarrow> string list \<Rightarrow> exn + task list" where
  "run_benchmark self prompts =
     (if rps self = 0 then Inl ZeroDivisionError
      else if rps self \<le> 0
        then Inr (map (\<lambda>(i, prompt). SendSingle i prompt) (enumerate 0 prompts))
        else Inr (map (\<lambda>(i, prompt). SendWithDelay i prompt (real i * interval self))
                    (enumerate 0 prompts)))"

section \<open>Python operations used by the client\<close>

text \<open>
  Library functions whose code is outside the repository are parameters of the model:
  \<^verbatim>\<open>json.loads\<close> (\<open>None\<close> when it raises \<^verbatim>\<open>JSONDecodeError\<close>), \<^verbatim>\<open>str(e)\<close> for an
  exception, \<^verbatim>\<open>float(s)\<close> and \<^verbatim>\<open>int(s)\<close> for a string (\<open>None\<close> when they raise
  \<^verbatim>\<open>ValueError\<close>), the formatting of a timestamp by
  \<^verbatim>\<open>time.strftime('%Y-%m-%d %H:%M:%S', time.localtime(t))\<close> (which raises on a
  timestamp outside the platform's range), and \<^verbatim>\<open>len(s)\<close> for a string: Python counts
  code points, while a string of the model is a list of bytes.
\<close>

record py_runtime =
  json_loads :: "string \<Rightarrow> json option"
  str_of_exn :: "exn \<Rightarrow> string"
  float_of_str :: "string \<Rightarrow> real option"
  int_of_str :: "string \<Rightarrow> int option"
  strftime_localtime :: "real \<Rightarrow> exn + string"
  str_len :: "string \<Rightarrow> nat"

text \<open>Truth value of a Python object in a condition.\<close>

fun truthy :: "json \<Rightarrow> bool" where
  "truthy JNull = False"
| "truthy (JBool b) = b"
| "truthy (JInt i) = (i \<noteq> 0)"
| "truthy (JFloat r) = (r \<noteq> 0)"
| "truthy (JStr s) = (s \<noteq> [])"
| "truthy (JArr xs) = (xs \<noteq> [])"
| "truthy (JObj kvs) = (kvs \<noteq> [])"

text \<open>\<^verbatim>\<open>obj[key]\<close> with a string key: only a dictionary holding the key answers.\<close>

fun py_getitem :: "json \<Rightarrow> string \<Rightarrow> exn + json" where
  "py_getitem (JObj kvs) k = (case map_of kvs k of Some v \<Rightarrow> Inr v | None \<Rightarrow> Inl KeyError)"
| "py_getitem _ k = Inl TypeError"

text \<open>
  \<^verbatim>\<open>obj[0]\<close>: the first element of a list, the first character of a string; a
  dictionary parsed from JSON has string keys only, so \<open>0\<close> is never a key of it.
\<close>

fun py_getitem0 :: "json \<Rightarrow> exn + json" where
  "py_getitem0 (JArr (x # xs)) = Inr x"
| "py_getitem0 (JArr []) = Inl IndexError"
| "py_getitem0 (JStr (c # cs)) = Inr (JStr [c])"
| "py_getitem0 (JStr []) = Inl IndexError"
| "py_getitem0 (JObj kvs) = Inl KeyError"
| "py_getitem0 _ = Inl TypeError"

text \<open>\<^verbatim>\<open>obj.get(key, default)\<close>: only a dictionary has the method.\<close>

fun py_get :: "json \<Rightarrow> string \<Rightarrow> json \<Rightarrow> exn + json" where
  "py_get (JObj kvs) k d = Inr (case map_of kvs k of Some v \<Rightarrow> v | None \<Rightarrow> d)"
| "py_get _ k d = Inl AttributeError"

text \<open>
  The elements a \<^verbatim>\<open>for\<close> loop visits: the elements of a list, the keys of a dictionary,
  the characters of a string; any other value is not iterable.
\<close>

fun py_iter :: "json \<Rightarrow> exn + json list" where
  "py_iter (JArr xs) = Inr xs"
| "py_iter (JObj kvs) = Inr (map (\<lambda>kv. JStr (fst kv)) kvs)"
| "py_iter (JStr s) = Inr (map (\<lambda>c. JStr [c]) s)"
| "py_iter _ = Inl TypeError"

text \<open>\<^verbatim>\<open>key in obj\<close> for a string key.\<close>

definition is_substring :: "string \<Rightarrow> string \<Rightarrow> bool" where
  "is_substring k s = list_ex (\<lambda>i. take (length k) (drop i s) = k) [0 ..< Suc (length s)]"

fun py_contains :: "string \<Rightarrow> json \<Rightarrow> exn + bool" where
  "py_contains k (JObj kvs) = Inr (map_of kvs k \<noteq> None)"
| "py_contains k (JArr xs) = Inr (JStr k \<in> set xs)"
| "py_contains k (JStr s) = Inr (is_substring k s)"
| "py_contains k _ = Inl TypeError"

text \<open>\<^verbatim>\<open>len(obj)\<close>.\<close>

fun py_len :: "py_runtime \<Rightarrow> json \<Rightarrow> exn + nat" where
  "py_len rt (JStr s) = Inr (str_len rt s)"
| "py_len rt (JArr xs) = Inr (length xs)"
| "py_len rt (JObj kvs) = Inr (length kvs)"
| "py_len rt _ = Inl TypeError"

text \<open>
  \<^verbatim>\<open>s.strip()\<close> and \<^verbatim>\<open>s.startswith(p)\<close>. The characters of the model are bytes, so only
  the ASCII white space of Python is stripped.
\<close>

definition is_space :: "char \<Rightarrow> bool" where
  "is_space c = (c \<in> set [CHR 0x09, CHR 0x0A, CHR 0x0B, CHR 0x0C, CHR 0x0D,
                           CHR 0x1C, CHR 0x1D, CHR 0x1E, CHR 0x1F, CHR 0x20])"

definition strip :: "string \<Rightarrow> string" where
  "strip s = rev (dropWhile is_space (rev (dropWhile is_space s)))"

definition startswith :: "string \<Rightarrow> string \<Rightarrow> bool" where
  "startswith s p = (take (length p) s = p)"

text \<open>The decimal digits of a natural number, as an f-string prints it.\<close>

fun str_of_nat :: "nat \<Rightarrow> string" where
  "str_of_nat n =
     (if n < 10 then [char_of (48 + n)]
      else str_of_nat (n div 10) @ [char_of (48 + n mod 10)])"

text \<open>
  \<^verbatim>\<open>float(value)\<close> and \<^verbatim>\<open>int(value)\<close>, \<open>None\<close> when they raise. \<^verbatim>\<open>int\<close> of a float
  truncates towards zero.
\<close>

fun py_float :: "py_runtime \<Rightarrow> json \<Rightarrow> real option" where
  "py_float rt (JBool b) = Some (if b then 1 else 0)"
| "py_float rt (JInt i) = Some (real_of_int i)"
| "py_float rt (JFloat r) = Some r"
| "py_float rt (JStr s) = float_of_str rt s"
| "py_float rt _ = None"

fun py_int :: "py_runtime \<Rightarrow> json \<Rightarrow> int option" where
  "py_int rt (JBool b) = Some (if b then 1 else 0)"
| "py_int rt (JInt i) = Some i"
| "py_int rt (JFloat r) = Some (if r \<ge> 0 then \<lfloor>r\<rfloor> else \<lceil>r\<rceil>)"
| "py_int rt (JStr s) = int_of_str rt s"
| "py_int rt _ = None"

section \<open>The tracing client: sending one request\<close>

text \<open>
  What the outside world hands to one call of \<^verbatim>\<open>send_request\<close>. A streamed body is the
  list of lines the iterator \<^verbatim>\<open>response.content\<close> yields, each with the reading
  \<^verbatim>\<open>time.perf_counter()\<close> returns while that line is processed; a line is \<open>None\<close> when
  its bytes are not UTF-8, otherwise its decoded text. \<open>stream_error\<close> is the exception
  the iterator raises after the last line, if the connection fails instead of ending.
\<close>

record http_response =
  status :: nat
  text_body :: "exn + string"
  json_body :: "exn + json"
  content_lines :: "(string option \<times> real) list"
  stream_error :: "exn option"

text \<open>
  \<open>uuid_request\<close>, \<open>uuid_trace\<close>, \<open>uuid_span\<close> are the three \<^verbatim>\<open>str(uuid.uuid4())\<close>;
  \<open>wall_clock\<close> is \<^verbatim>\<open>time.time()\<close> at creation of the record; \<open>perf_start\<close> and
  \<open>perf_end\<close> are the readings of \<^verbatim>\<open>time.perf_counter()\<close> before the request and after
  the body has been read; \<open>post\<close> is the server: from the request body and the headers to
  the exception \<^verbatim>\<open>session.post\<close> raises or the response it returns.
\<close>

record request_env =
  uuid_request :: string
  uuid_trace :: string
  uuid_span :: string
  wall_clock :: real
  perf_start :: real
  perf_end :: real
  post :: "json \<Rightarrow> (string \<times> string) list \<Rightarrow> exn + http_response"

text \<open>\<^verbatim>\<open>_generate_trace_context\<close>: trace id, span id and the \<^verbatim>\<open>traceparent\<close> header.\<close>

record trace_context =
  traceparent :: string
  tc_trace_id :: string
  tc_span_id :: string

definition generate_trace_context :: "request_env \<Rightarrow> trace_context" where
  "generate_trace_context env =
     (let tid = take 32 (filter (\<lambda>c. c \<noteq> CHR ''-'') (uuid_trace env));
          sid = take 16 (filter (\<lambda>c. c \<noteq> CHR ''-'') (uuid_span env))
      in \<lparr> traceparent = ''00-'' @ tid @ ''-'' @ sid @ ''-01'',
           tc_trace_id = tid, tc_span_id = sid \<rparr>)"

text \<open>The local variables of the loop of \<^verbatim>\<open>_process_streaming_response\<close>.\<close>

record stream_state =
  text_acc :: string
  first_token_time :: "real option"
  inter_token_latencies :: "real list"
  most_recent_timestamp :: real

text \<open>\<^verbatim>\<open>data["choices"][0]["delta"].get("content")\<close>.\<close>

definition delta_content :: "json \<Rightarrow> exn + json" where
  "delta_content data =
     (case py_getitem data ''choices'' of Inl e \<Rightarrow> Inl e
      | Inr choices \<Rightarrow>
     (case py_getitem0 choices of Inl e \<Rightarrow> Inl e
      | Inr choice \<Rightarrow>
     (case py_getitem choice ''delta'' of Inl e \<Rightarrow> Inl e
      | Inr delta \<Rightarrow> py_get delta ''content'' JNull)))"

text \<open>
  The \<^verbatim>\<open>async for\<close> loop. The result is the exception that left the loop (if any), the
  local variables and the record as mutated so far: \<^verbatim>\<open>metrics.client_ttft\<close> is written
  inside the loop, at the first token. Only \<^verbatim>\<open>JSONDecodeError\<close> is caught inside the
  loop; adding a content that is not a string to \<^verbatim>\<open>generated_text\<close> raises
  \<^verbatim>\<open>TypeError\<close>.
\<close>

fun stream_loop ::
  "py_runtime \<Rightarrow> real \<Rightarrow> (string option \<times> real) list \<Rightarrow> exn option
     \<Rightarrow> stream_state \<Rightarrow> RequestMetrics \<Rightarrow> exn option \<times> stream_state \<times> RequestMetrics" where
  "stream_loop rt start_time [] fin s metrics = (fin, s, metrics)"
| "stream_loop rt start_time ((None, t) # rest) fin s metrics =
     (Some UnicodeDecodeError, s, metrics)"
| "stream_loop rt start_time ((Some raw, t) # rest) fin s metrics =
     (let line = strip raw in
      if startswith line ''data: '' then
        (let data_str = drop 6 line in
         if data_str = ''[DONE]'' then (None, s, metrics)
         else
           (case json_loads rt data_str of
              None \<Rightarrow> stream_loop rt start_time rest fin s metrics
            | Some data \<Rightarrow>
               (case delta_content data of
                  Inl e \<Rightarrow> (Some e, s, metrics)
                | Inr content \<Rightarrow>
                   if truthy content then
                     (let current_time = t;
                          s1 = (case first_token_time s of
                                  None \<Rightarrow> s\<lparr> first_token_time := Some current_time \<rparr>
                                | Some _ \<Rightarrow>
                                    s\<lparr> inter_token_latencies :=
                                         inter_token_latencies s
                                           @ [current_time - most_recent_timestamp s] \<rparr>);
                          metrics1 = (case first_token_time s of
                                  None \<Rightarrow> metrics
                                    \<lparr> client_ttft := Some ((current_time - start_time) * 1000) \<rparr>
                                | Some _ \<Rightarrow> metrics)
                      in case content of
                           JStr c \<Rightarrow>
                             stream_loop rt start_time rest fin
                               (s1\<lparr> text_acc := text_acc s1 @ c,
                                    most_recent_timestamp := current_time \<rparr>) metrics1
                         | _ \<Rightarrow> (Some TypeError, s1, metrics1))
                   else stream_loop rt start_time rest fin s metrics)))
      else stream_loop rt start_time rest fin s metrics)"

text \<open>
  \<^verbatim>\<open>_process_streaming_response\<close>: the loop, then the metrics computed after it. The
  first component is the exception that propagates to the caller, if any.
\<close>

definition process_streaming_response ::
  "py_runtime \<Rightarrow> http_response \<Rightarrow> RequestMetrics \<Rightarrow> real \<Rightarrow> real
     \<Rightarrow> exn option \<times> RequestMetrics" where
  "process_streaming_response rt response metrics start_time end_time =
     (case stream_loop rt start_time (content_lines response) (stream_error response)
             \<lparr> text_acc = '''', first_token_time = None, inter_token_latencies = [],
               most_recent_timestamp = start_time \<rparr> metrics of
        (Some e, s, metrics1) \<Rightarrow> (Some e, metrics1)
      | (None, s, metrics1) \<Rightarrow>
          (let metrics2 = metrics1
                 \<lparr> client_e2e_latency := (end_time - start_time) * 1000,
                   generated_text := JStr (text_acc s),
                   client_itl_list := inter_token_latencies s \<rparr>
           in if inter_token_latencies s \<noteq> []
              then (let tpot = (sum_list (inter_token_latencies s)
                                 / real (length (inter_token_latencies s))) * 1000
                    in (None, metrics2\<lparr> client_tpot := Some tpot, client_itl := Some tpot \<rparr>))
              else (None, metrics2)))"

text \<open>
  \<^verbatim>\<open>_process_non_streaming_response\<close>. The latency is written before the content is
  read out of the body, so an exception raised by the content path leaves it on the record.
\<close>

definition process_non_streaming_response ::
  "http_response \<Rightarrow> RequestMetrics \<Rightarrow> real \<Rightarrow> real \<Rightarrow> exn option \<times> RequestMetrics" where
  "process_non_streaming_response response metrics start_time end_time =
     (case json_body response of
        Inl e \<Rightarrow> (Some e, metrics)
      | Inr response_data \<Rightarrow>
          (let metrics1 = metrics\<lparr> client_e2e_latency := (end_time - start_time) * 1000 \<rparr>
           in case py_contains ''choices'' response_data of
                Inl e \<Rightarrow> (Some e, metrics1)
              | Inr False \<Rightarrow> (None, metrics1)
              | Inr True \<Rightarrow>
                 (case py_getitem response_data ''choices'' of
                    Inl e \<Rightarrow> (Some e, metrics1)
                  | Inr choices \<Rightarrow>
                     if truthy choices then
                       (case py_getitem0 choices of Inl e \<Rightarrow> (Some e, metrics1)
                        | Inr choice \<Rightarrow>
                       (case py_getitem choice ''message'' of Inl e \<Rightarrow> (Some e, metrics1)
                        | Inr message \<Rightarrow>
                       (case py_getitem message ''content'' of Inl e \<Rightarrow> (Some e, metrics1)
                        | Inr c \<Rightarrow> (None, metrics1\<lparr> generated_text := c \<rparr>))))
                     else (None, metrics1))))"

text \<open>The JSON body and the headers of the POST.\<close>

definition request_data ::
  "json \<Rightarrow> string \<Rightarrow> real \<Rightarrow> int \<Rightarrow> real \<Rightarrow> bool \<Rightarrow> (string \<times> json) list \<Rightarrow> json" where
  "request_data messages model temp maxtok topp stream kwargs =
     JObj ([(''messages'', messages), (''stream'', JBool stream),
            (''temperature'', JFloat temp), (''max_tokens'', JInt maxtok),
            (''top_p'', JFloat topp)] @ kwargs
           @ (if model \<noteq> ''auto'' then [(''model'', JStr model)] else []))"

definition request_headers :: "trace_context \<Rightarrow> string \<Rightarrow> (string \<times> string) list" where
  "request_headers tc rid =
     [(''Content-Type'', ''application/json''),
      (''traceparent'', traceparent tc),
      (''X-Request-Id'', rid)]"

text \<open>
  \<^verbatim>\<open>send_request\<close>. Every exception raised inside the \<^verbatim>\<open>try\<close> block ends in the handler
  \<^verbatim>\<open>metrics.error_message = str(e)\<close>, which changes no other field; \<^verbatim>\<open>success\<close> is set
  only after the body has been processed without an exception. Leaving the two
  \<^verbatim>\<open>async with\<close> blocks is taken not to raise.
\<close>

definition send_request ::
  "py_runtime \<Rightarrow> request_env \<Rightarrow> json \<Rightarrow> string \<Rightarrow> real \<Rightarrow> int \<Rightarrow> real \<Rightarrow> bool
     \<Rightarrow> (string \<times> json) list \<Rightarrow> RequestMetrics" where
  "send_request rt env messages model temp maxtok topp stream kwargs =
     (let rid = uuid_request env;
          tc = generate_trace_context env;
          metrics = (RequestMetrics_init rid (tc_trace_id tc))
                      \<lparr> send_time := Some (wall_clock env) \<rparr>;
          start_time = perf_start env
      in case post env (request_data messages model temp maxtok topp stream kwargs)
                (request_headers tc rid) of
           Inl e \<Rightarrow> metrics\<lparr> error_message := str_of_exn rt e \<rparr>
         | Inr response \<Rightarrow>
             if status response \<noteq> 200 then
               (case text_body response of
                  Inl e \<Rightarrow> metrics\<lparr> error_message := str_of_exn rt e \<rparr>
                | Inr error_text \<Rightarrow>
                    metrics\<lparr> error_message :=
                      ''HTTP '' @ str_of_nat (status response) @ '': '' @ error_text \<rparr>)
             else
               (case (if stream
                      then process_streaming_response rt response metrics start_time
                             (perf_end env)
                      else process_non_streaming_response response metrics start_time
                             (perf_end env)) of
                  (Some e, metrics1) \<Rightarrow> metrics1\<lparr> error_message := str_of_exn rt e \<rparr>
                | (None, metrics1) \<Rightarrow> metrics1\<lparr> success := True \<rparr>))"

subsection \<open>One line of the stream, seen from the loop\<close>

text \<open>
  What one decoded line does to the loop of \<^verbatim>\<open>_process_streaming_response\<close>: it is
  skipped (no \<^verbatim>\<open>data: \<close> prefix, not JSON, or no content), it ends the stream
  (\<^verbatim>\<open>[DONE]\<close>), reading its content raises, it carries a text token, or it carries a
  content that is not a string. This classification is derived from \<open>stream_loop\<close> (lemma
  \<open>stream_loop_Some\<close>) and only serves the proofs.
\<close>

datatype line_event = Skip | Done | Fail exn | Token string | BadToken

definition line_event :: "py_runtime \<Rightarrow> string \<Rightarrow> line_event" where
  "line_event rt raw =
     (if startswith (strip raw) ''data: '' then
        (if drop 6 (strip raw) = ''[DONE]'' then Done
         else
           (case json_loads rt (drop 6 (strip raw)) of
              None \<Rightarrow> Skip
            | Some data \<Rightarrow>
               (case delta_content data of
                  Inl e \<Rightarrow> Fail e
                | Inr content \<Rightarrow>
                   if truthy content
                   then (case content of JStr c \<Rightarrow> Token c | _ \<Rightarrow> BadToken)
                   else Skip)))
      else Skip)"

definition arrival_state :: "stream_state \<Rightarrow> real \<Rightarrow> stream_state" where
  "arrival_state s t =
     (case first_token_time s of
        None \<Rightarrow> s\<lparr> first_token_time := Some t \<rparr>
      | Some _ \<Rightarrow> s\<lparr> inter_token_latencies :=
                       inter_token_latencies s @ [t - most_recent_timestamp s] \<rparr>)"

definition arrival_metrics :: "real \<Rightarrow> stream_state \<Rightarrow> real \<Rightarrow> RequestMetrics \<Rightarrow> RequestMetrics" where
  "arrival_metrics start_time s t metrics =
     (case first_token_time s of
        None \<Rightarrow> metrics\<lparr> client_ttft := Some ((t - start_time) * 1000) \<rparr>
      | Some _ \<Rightarrow> metrics)"

subsection \<open>The tokens of a stream\<close>

text \<open>
  The arrival times of the text tokens of a stream, in order, up to the line that ends
  the loop, and the gaps between consecutive arrivals.
\<close>

fun token_arrivals :: "py_runtime \<Rightarrow> (string option \<times> real) list \<Rightarrow> real list" where
  "token_arrivals rt [] = []"
| "token_arrivals rt ((None, t) # rest) = []"
| "token_arrivals rt ((Some raw, t) # rest) =
     (case line_event rt raw of
        Skip \<Rightarrow> token_arrivals rt rest
      | Token c \<Rightarrow> t # token_arrivals rt rest
      | _ \<Rightarrow> [])"

fun arrival_gaps :: "real list \<Rightarrow> real list" where
  "arrival_gaps (a # b # ts) = (b - a) # arrival_gaps (b # ts)"
| "arrival_gaps _ = []"

section \<open>The tracing client: server metrics from the trace store\<close>

text \<open>
  The dictionary \<^verbatim>\<open>_extract_server_metrics_from_trace\<close> returns when it finds the span:
  always the same twelve keys, each value \<^verbatim>\<open>None\<close> when the tag is missing or does not
  convert. The value under \<^verbatim>\<open>"model"\<close> is the tag's value as it is (\<open>JNull\<close> when the
  tag is missing).
\<close>

record server_data =
  sd_queue_time :: "real option"
  sd_prefill_time :: "real option"
  sd_decode_time :: "real option"
  sd_inference_time :: "real option"
  sd_e2e_time :: "real option"
  sd_ttft :: "real option"
  sd_prompt_tokens :: "int option"
  sd_completion_tokens :: "int option"
  sd_model :: json
  sd_temperature :: "real option"
  sd_top_p :: "real option"
  sd_max_tokens :: "int option"

text \<open>\<^verbatim>\<open>_safe_float_ms\<close>, \<^verbatim>\<open>_safe_float\<close>, \<^verbatim>\<open>_safe_int\<close>: any failure to convert gives \<^verbatim>\<open>None\<close>.\<close>

definition safe_float_ms :: "py_runtime \<Rightarrow> json \<Rightarrow> real option" where
  "safe_float_ms rt v =
     (if v \<noteq> JNull
      then (case py_float rt v of Some x \<Rightarrow> Some (x * 1000) | None \<Rightarrow> None)
      else None)"

definition safe_float :: "py_runtime \<Rightarrow> json \<Rightarrow> real option" where
  "safe_float rt v = (if v \<noteq> JNull then py_float rt v else None)"

definition safe_int :: "py_runtime \<Rightarrow> json \<Rightarrow> int option" where
  "safe_int rt v = (if v \<noteq> JNull then py_int rt v else None)"

text \<open>
  The dictionary comprehension \<^verbatim>\<open>{tag["key"]: tag["value"] for tag in ...}\<close>. The result
  is an association list with the latest entry first, so that a later tag overrides an
  earlier one with the same key. A tag that is not a dictionary or lacks one of the two
  keys raises, and so does a key that is a list or a dictionary (not hashable).
\<close>

fun hashable :: "json \<Rightarrow> bool" where
  "hashable (JArr xs) = False"
| "hashable (JObj kvs) = False"
| "hashable _ = True"

fun build_tags :: "json list \<Rightarrow> (json \<times> json) list \<Rightarrow> exn + (json \<times> json) list" where
  "build_tags [] acc = Inr acc"
| "build_tags (tag # rest) acc =
     (case py_getitem tag ''key'' of Inl e \<Rightarrow> Inl e
      | Inr k \<Rightarrow>
     (case py_getitem tag ''value'' of Inl e \<Rightarrow> Inl e
      | Inr v \<Rightarrow> if hashable k then build_tags rest ((k, v) # acc) else Inl TypeError))"

text \<open>\<^verbatim>\<open>tags.get(name)\<close>.\<close>

definition tags_get :: "(json \<times> json) list \<Rightarrow> string \<Rightarrow> json" where
  "tags_get tags name = (case map_of tags (JStr name) of Some v \<Rightarrow> v | None \<Rightarrow> JNull)"

definition server_data_of_tags :: "py_runtime \<Rightarrow> (json \<times> json) list \<Rightarrow> server_data" where
  "server_data_of_tags rt tags =
     \<lparr> sd_queue_time = safe_float_ms rt (tags_get tags ''gen_ai.latency.time_in_queue''),
       sd_prefill_time =
         safe_float_ms rt (tags_get tags ''gen_ai.latency.time_in_model_prefill''),
       sd_decode_time =
         safe_float_ms rt (tags_get tags ''gen_ai.latency.time_in_model_decode''),
       sd_inference_time =
         safe_float_ms rt (tags_get tags ''gen_ai.latency.time_in_model_inference''),
       sd_e2e_time = safe_float_ms rt (tags_get tags ''gen_ai.latency.e2e''),
       sd_ttft = safe_float_ms rt (tags_get tags ''gen_ai.latency.time_to_first_token''),
       sd_prompt_tokens = safe_int rt (tags_get tags ''gen_ai.usage.prompt_tokens''),
       sd_completion_tokens = safe_int rt (tags_get tags ''gen_ai.usage.completion_tokens''),
       sd_model = tags_get tags ''gen_ai.response.model'',
       sd_temperature = safe_float rt (tags_get tags ''gen_ai.request.temperature''),
       sd_top_p = safe_float rt (tags_get tags ''gen_ai.request.top_p''),
       sd_max_tokens = safe_int rt (tags_get tags ''gen_ai.request.max_tokens'') \<rparr>"

text \<open>
  The two nested loops of \<^verbatim>\<open>_extract_server_metrics_from_trace\<close>: the first span, in
  iteration order, whose \<^verbatim>\<open>operationName\<close> is \<^verbatim>\<open>"llm_request"\<close> decides. \<open>Inr None\<close>
  says that the loop ended without finding one.
\<close>

fun scan_spans :: "py_runtime \<Rightarrow> json list \<Rightarrow> exn + server_data option" where
  "scan_spans rt [] = Inr None"
| "scan_spans rt (span_obj # rest) =
     (case py_get span_obj ''operationName'' JNull of Inl e \<Rightarrow> Inl e
      | Inr name \<Rightarrow>
          if name = JStr ''llm_request'' then
            (case py_get span_obj ''tags'' (JArr []) of Inl e \<Rightarrow> Inl e
             | Inr tv \<Rightarrow>
            (case py_iter tv of Inl e \<Rightarrow> Inl e
             | Inr tag_list \<Rightarrow>
            (case build_tags tag_list [] of Inl e \<Rightarrow> Inl e
             | Inr tags \<Rightarrow> Inr (Some (server_data_of_tags rt tags)))))
          else scan_spans rt rest)"

fun scan_traces :: "py_runtime \<Rightarrow> json list \<Rightarrow> exn + server_data option" where
  "scan_traces rt [] = Inr None"
| "scan_traces rt (trace_obj # rest) =
     (case py_get trace_obj ''spans'' (JArr []) of Inl e \<Rightarrow> Inl e
      | Inr sv \<Rightarrow>
     (case py_iter sv of Inl e \<Rightarrow> Inl e
      | Inr spans \<Rightarrow>
     (case scan_spans rt spans of Inl e \<Rightarrow> Inl e
      | Inr (Some d) \<Rightarrow> Inr (Some d)
      | Inr None \<Rightarrow> scan_traces rt rest)))"

text \<open>
  \<^verbatim>\<open>_extract_server_metrics_from_trace\<close>. \<open>None\<close> is the empty dictionary \<^verbatim>\<open>{}\<close>, which
  the function returns when no span matches and when any exception is raised
  (\<^verbatim>\<open>except Exception: pass\<close>). \<open>Some d\<close> is the twelve-key dictionary; only this one is
  true in the caller's test \<^verbatim>\<open>if server_data:\<close>.
\<close>

definition extract_server_metrics_from_trace :: "py_runtime \<Rightarrow> json \<Rightarrow> server_data option" where
  "extract_server_metrics_from_trace rt trace_data =
     (case (case py_get trace_data ''data'' (JArr []) of Inl e \<Rightarrow> Inl e
            | Inr dv \<Rightarrow>
           (case py_iter dv of Inl e \<Rightarrow> Inl e
            | Inr traces \<Rightarrow> scan_traces rt traces)) of
        Inl e \<Rightarrow> None
      | Inr found \<Rightarrow> found)"

text \<open>
  One poll of the trace store: \<open>GetRaises\<close> when \<^verbatim>\<open>requests.get\<close> raises, otherwise the
  status code and the body as \<^verbatim>\<open>response.json()\<close> parses it (\<open>None\<close> when that raises).
  \<open>poll_cost\<close> is the time in milliseconds the poll takes on top of the half second the
  loop sleeps after it.
\<close>

datatype http_reply = GetRaises | GetStatus nat "json option"

record poll =
  poll_reply :: http_reply
  poll_cost :: nat

text \<open>The body of the \<^verbatim>\<open>try\<close> block of one iteration: the new value of \<^verbatim>\<open>server_data\<close>.\<close>

fun try_poll :: "py_runtime \<Rightarrow> http_reply \<Rightarrow> server_data option" where
  "try_poll rt GetRaises = None"
| "try_poll rt (GetStatus code body) =
     (if code = 200
      then (case body of None \<Rightarrow> None
            | Some trace_data \<Rightarrow> extract_server_metrics_from_trace rt trace_data)
      else None)"

text \<open>
  The polling loop \<^verbatim>\<open>while time.time() - start_time < timeout\<close>. \<open>elapsed\<close> is the time
  since \<^verbatim>\<open>start_time\<close> in milliseconds, \<open>k\<close> counts the polls made so far, and
  \<open>store k\<close> is what the \<open>k\<close>-th poll meets. An iteration that does not break costs the
  poll and the sleep of 500 ms, so the loop ends.
\<close>

function poll_loop ::
  "py_runtime \<Rightarrow> (nat \<Rightarrow> poll) \<Rightarrow> int \<Rightarrow> nat \<Rightarrow> nat \<Rightarrow> server_data option" where
  "poll_loop rt store timeout elapsed k =
     (if int elapsed < 1000 * timeout then
        (case try_poll rt (poll_reply (store k)) of
           Some d \<Rightarrow> Some d
         | None \<Rightarrow> poll_loop rt store timeout (elapsed + poll_cost (store k) + 500) (Suc k))
      else None)"
  by pat_completeness auto
termination
  by (relation "measure (\<lambda>(rt, store, timeout, elapsed, k). nat (1000 * timeout - int elapsed))")
     auto

text \<open>
  \<^verbatim>\<open>enrich_with_server_metrics\<close>: the returned flag and the record after the call.
  \<open>jaeger\<close> is the trace store: from the trace id in the URL and the number of the poll
  to what that poll meets.
\<close>

definition enrich_with_server_metrics ::
  "py_runtime \<Rightarrow> (string \<Rightarrow> nat \<Rightarrow> poll) \<Rightarrow> RequestMetrics \<Rightarrow> int \<Rightarrow> bool \<times> RequestMetrics" where
  "enrich_with_server_metrics rt jaeger metrics timeout =
     (case poll_loop rt (jaeger (trace_id metrics)) timeout 0 0 of
        None \<Rightarrow> (False, metrics)
      | Some d \<Rightarrow>
          (True, metrics
             \<lparr> server_queue_time := sd_queue_time d,
               server_prefill_time := sd_prefill_time d,
               server_decode_time := sd_decode_time d,
               server_inference_time := sd_inference_time d,
               server_e2e_time := sd_e2e_time d,
               server_ttft := sd_ttft d,
               prompt_tokens := sd_prompt_tokens d,
               completion_tokens := sd_completion_tokens d,
               model_name := sd_model d,
               temperature := sd_temperature d,
               top_p := sd_top_p d,
               max_tokens := sd_max_tokens d \<rparr>))"

text \<open>
  \<^verbatim>\<open>_collect_single_server_metrics\<close>, the caller in the benchmark driver: it runs the
  enrichment with a timeout of 20 seconds and drops the returned flag.
\<close>

definition collect_single_server_metrics ::
  "py_runtime \<Rightarrow> (string \<Rightarrow> nat \<Rightarrow> poll) \<Rightarrow> RequestMetrics \<Rightarrow> RequestMetrics" where
  "collect_single_server_metrics rt jaeger metrics =
     snd (enrich_with_server_metrics rt jaeger metrics 20)"

subsection \<open>The polls of the trace store in time\<close>

text \<open>
  The elapsed time, in milliseconds, at which the \<open>k\<close>-th poll starts when none of the
  earlier polls has ended the loop: every earlier iteration cost its poll and the sleep.
\<close>

fun poll_time :: "(nat \<Rightarrow> poll) \<Rightarrow> nat \<Rightarrow> nat" where
  "poll_time store 0 = 0"
| "poll_time store (Suc k) = poll_time store k + poll_cost (store k) + 500"

subsection \<open>The trace document of the trace store\<close>

text \<open>
  The response of the trace store as the spec describes it: a JSON graph of traces, spans
  and tags. A document is an object whose \<^verbatim>\<open>data\<close>, when present, is a list of trace
  objects; the \<^verbatim>\<open>spans\<close> of a trace, when present, are a list of span objects; the
  \<^verbatim>\<open>tags\<close> of a span whose operation name is \<^verbatim>\<open>llm_request\<close>, when present, are a list of
  objects with a \<^verbatim>\<open>key\<close> (a string or another atom) and a \<^verbatim>\<open>value\<close>. These definitions
  follow the spec's words; the extraction of the source is compared with them below.
\<close>

fun document_traces :: "json \<Rightarrow> json list option" where
  "document_traces (JObj kvs) =
     (case map_of kvs ''data'' of
        None \<Rightarrow> Some [] | Some (JArr trs) \<Rightarrow> Some trs | Some _ \<Rightarrow> None)"
| "document_traces _ = None"

fun trace_spans :: "json \<Rightarrow> json list option" where
  "trace_spans (JObj kvs) =
     (case map_of kvs ''spans'' of
        None \<Rightarrow> Some [] | Some (JArr sps) \<Rightarrow> Some sps | Some _ \<Rightarrow> None)"
| "trace_spans _ = None"

fun span_tags :: "json \<Rightarrow> json list option" where
  "span_tags (JObj kvs) =
     (case map_of kvs ''tags'' of
        None \<Rightarrow> Some [] | Some (JArr ts) \<Rightarrow> Some ts | Some _ \<Rightarrow> None)"
| "span_tags _ = None"

fun tag_entry :: "json \<Rightarrow> (json \<times> json) option" where
  "tag_entry (JObj kvs) =
     (case map_of kvs ''key'' of
        None \<Rightarrow> None
      | Some k \<Rightarrow>
          (case map_of kvs ''value'' of
             None \<Rightarrow> None
           | Some v \<Rightarrow> if hashable k then Some (k, v) else None))"
| "tag_entry _ = None"

fun is_llm_request_span :: "json \<Rightarrow> bool" where
  "is_llm_request_span (JObj kvs) = (map_of kvs ''operationName'' = Some (JStr ''llm_request''))"
| "is_llm_request_span _ = False"

fun is_object :: "json \<Rightarrow> bool" where
  "is_object (JObj kvs) = True"
| "is_object _ = False"

definition span_ok :: "json \<Rightarrow> bool" where
  "span_ok sp =
     (is_object sp \<and>
      (if is_llm_request_span sp
       then (case span_tags sp of
               None \<Rightarrow> False
             | Some ts \<Rightarrow> list_all (\<lambda>t. tag_entry t \<noteq> None) ts)
       else True))"

definition trace_ok :: "json \<Rightarrow> bool" where
  "trace_ok tr = (case trace_spans tr of None \<Rightarrow> False | Some sps \<Rightarrow> list_all span_ok sps)"

definition jaeger_document :: "json \<Rightarrow> bool" where
  "jaeger_document td =
     (case document_traces td of None \<Rightarrow> False | Some trs \<Rightarrow> list_all trace_ok trs)"

text \<open>All spans of a document in order, and the tags of a span as a dictionary.\<close>

definition document_spans :: "json \<Rightarrow> json list" where
  "document_spans td =
     (case document_traces td of
        None \<Rightarrow> []
      | Some trs \<Rightarrow>
          concat (map (\<lambda>tr. case trace_spans tr of None \<Rightarrow> [] | Some sps \<Rightarrow> sps) trs))"

definition span_tag_pairs :: "json \<Rightarrow> (json \<times> json) list" where
  "span_tag_pairs sp =
     (case span_tags sp of None \<Rightarrow> [] | Some ts \<Rightarrow> rev (List.map_filter tag_entry ts))"

section \<open>The persisted form of a record\<close>

definition opt_float :: "real option \<Rightarrow> json" where
  "opt_float x = (case x of None \<Rightarrow> JNull | Some r \<Rightarrow> JFloat r)"

definition opt_int :: "int option \<Rightarrow> json" where
  "opt_int x = (case x of None \<Rightarrow> JNull | Some i \<Rightarrow> JInt i)"

text \<open>
  \<^verbatim>\<open>RequestMetrics.to_dict\<close>: the dictionary that \<^verbatim>\<open>json.dump\<close> writes as one element of
  the \<^verbatim>\<open>requests\<close> array. The entries are evaluated in the order of the source:
  formatting \<^verbatim>\<open>send_time\<close> raises on a timestamp out of range, then
  \<^verbatim>\<open>len(self.generated_text)\<close> raises when the field holds a value without a length.
  \<^verbatim>\<open>send_time_iso\<close> is \<^verbatim>\<open>None\<close> when \<^verbatim>\<open>send_time\<close> is \<^verbatim>\<open>None\<close> or \<open>0.0\<close>;
  \<^verbatim>\<open>itl_list_ms\<close> is every gap times 1000.
\<close>

definition send_time_iso :: "py_runtime \<Rightarrow> RequestMetrics \<Rightarrow> exn + json" where
  "send_time_iso rt self =
     (case send_time self of
        None \<Rightarrow> Inr JNull
      | Some t \<Rightarrow>
          if t \<noteq> 0
          then (case strftime_localtime rt t of Inl e \<Rightarrow> Inl e | Inr stamp \<Rightarrow> Inr (JStr stamp))
          else Inr JNull)"

definition to_dict :: "py_runtime \<Rightarrow> RequestMetrics \<Rightarrow> exn + json" where
  "to_dict rt self =
     (case send_time_iso rt self of
        Inl e \<Rightarrow> Inl e
      | Inr stamp \<Rightarrow>
     (case py_len rt (generated_text self) of
        Inl e \<Rightarrow> Inl e
      | Inr text_length \<Rightarrow>
          Inr (JObj
            [(''request_id'', JStr (request_id self)),
             (''trace_id'', JStr (trace_id self)),
             (''success'', JBool (success self)),
             (''error_message'', JStr (error_message self)),
             (''timestamp'', opt_float (send_time self)),
             (''send_time_iso'', stamp),
             (''client_metrics'', JObj
                [(''e2e_latency_ms'', JFloat (client_e2e_latency self)),
                 (''ttft_ms'', opt_float (client_ttft self)),
                 (''tpot_ms'', opt_float (client_tpot self)),
                 (''itl_ms'', opt_float (client_itl self))]),
             (''server_metrics'', JObj
                [(''queue_time_ms'', opt_float (server_queue_time self)),
                 (''prefill_time_ms'', opt_float (server_prefill_time self)),
                 (''decode_time_ms'', opt_float (server_decode_time self)),
                 (''inference_time_ms'', opt_float (server_inference_time self)),
                 (''e2e_time_ms'', opt_float (server_e2e_time self)),
                 (''ttft_ms'', opt_float (server_ttft self))]),
             (''tokens'', JObj
                [(''prompt_tokens'', opt_int (prompt_tokens self)),
                 (''completion_tokens'', opt_int (completion_tokens self))]),
             (''request_params'', JObj
                [(''model'', model_name self),
                 (''temperature'', opt_float (temperature self)),
                 (''top_p'', opt_float (top_p self)),
                 (''max_tokens'', opt_int (max_tokens self))]),
             (''content'', JObj
                [(''generated_text'', generated_text self),
                 (''text_length'', JInt (int text_length))]),
             (''detailed_data'', JObj
                [(''itl_list_seconds'', JArr (map JFloat (client_itl_list self))),
                 (''itl_list_ms'',
                    JArr (if client_itl_list self \<noteq> []
                          then map (\<lambda>itl. JFloat (itl * 1000)) (client_itl_list self)
                          else []))])])))"

subsection \<open>Reading the persisted form back\<close>




fun as_float :: "json \<Rightarrow> real option" where
  "as_float (JFloat r) = Some r"
| "as_float _ = None"

fun as_opt_float :: "json \<Rightarrow> real option option" where
  "as_opt_float JNull = Some None"
| "as_opt_float (JFloat r) = Some (Some r)"
| "as_opt_float _ = None"

fun as_opt_int :: "json \<Rightarrow> int option option" where
  "as_opt_int JNull = Some None"
| "as_opt_int (JInt i) = Some (Some i)"
| "as_opt_int _ = None"



section \<open>Example inputs\<close>

text \<open>
  Concrete inputs on which the properties below are evaluated: a runtime whose
  \<^verbatim>\<open>json.loads\<close> knows one chunk of a chat-completion stream, a server that answers
  every POST with a fixed response, and three streamed bodies: one that breaks after the
  first token, one that ends at once, and one with two tokens.
\<close>

definition token_line :: string where
  \<open>token_line = ''data: {"choices": [{"delta": {"content": "Hi"}}]}''\<close>

definition token_json :: json where
  "token_json = JObj [(''choices'', JArr [JObj [(''delta'', JObj [(''content'', JStr ''Hi'')])]])]"

definition example_runtime :: py_runtime where
  "example_runtime =
     \<lparr> json_loads = (\<lambda>s. if s = drop 6 token_line then Some token_json else None),
       str_of_exn = (\<lambda>e. case e of ClientError msg \<Rightarrow> msg | _ \<Rightarrow> ''error''),
       float_of_str = (\<lambda>s. None),
       int_of_str = (\<lambda>s. None),
       strftime_localtime = (\<lambda>t. Inr ''2023-11-14 22:13:20''),
       str_len = length \<rparr>"

definition example_response :: "(string option \<times> real) list \<Rightarrow> exn option \<Rightarrow> http_response" where
  "example_response ls fin =
     \<lparr> status = 200, text_body = Inr '''', json_body = Inl (ClientError ''not JSON''),
       content_lines = ls, stream_error = fin \<rparr>"

definition example_env :: "http_response \<Rightarrow> request_env" where
  "example_env resp =
     \<lparr> uuid_request = ''123e4567-e89b-42d3-a456-426614174000'',
       uuid_trace = ''0af76519-16cd-43dd-8448-eb211c80319c'',
       uuid_span = ''b7ad6b71-6920-4331-a2fe-00f067aa0ba9'',
       wall_clock = 1700000000, perf_start = 10, perf_end = 12,
       post = (\<lambda>body headers. Inr resp) \<rparr>"


definition empty_stream :: http_response where
  "empty_stream = example_response [(Some ''data: [DONE]'', 11)] None"

definition two_token_stream :: http_response where
  "two_token_stream =
     example_response
       [(Some token_line, 11), (Some token_line, 11.5), (Some ''data: [DONE]'', 12)] None"

text \<open>
  A trace store that does not know the trace at the first poll (status 404) and returns
  a document with one trace and one span from the second poll on, for one trace id only;
  a store that never knows any trace; a span without attributes and a span with four
  attributes, one of which does not convert.
\<close>

definition example_trace_id :: string where
  "example_trace_id = ''0af7651916cd43dd8448eb211c80319c''"

definition example_record :: RequestMetrics where
  "example_record =
     (RequestMetrics_init ''123e4567-e89b-42d3-a456-426614174000'' example_trace_id)
       \<lparr> success := True, client_e2e_latency := 2000 \<rparr>"

definition trace_document :: "json \<Rightarrow> json" where
  "trace_document sp =
     JObj [(''data'', JArr [JObj [(''traceID'', JStr example_trace_id),
                                  (''spans'', JArr [sp])]])]"

definition late_store :: "json \<Rightarrow> string \<Rightarrow> nat \<Rightarrow> poll" where
  "late_store doc tid k =
     \<lparr> poll_reply = (if tid = example_trace_id \<and> 0 < k
                       then GetStatus 200 (Some doc) else GetStatus 404 None),
       poll_cost = 20 \<rparr>"

definition empty_store :: "string \<Rightarrow> nat \<Rightarrow> poll" where
  "empty_store tid k = \<lparr> poll_reply = GetStatus 404 None, poll_cost = 20 \<rparr>"

definition span_without_tags :: json where
  "span_without_tags = JObj [(''operationName'', JStr ''llm_request''), (''tags'', JArr [])]"

definition tag :: "string \<Rightarrow> json \<Rightarrow> json" where
  "tag k v = JObj [(''key'', JStr k), (''value'', v)]"

definition tagged_span :: json where
  "tagged_span =
     JObj [(''operationName'', JStr ''llm_request''),
           (''tags'', JArr
              [tag ''gen_ai.latency.time_in_queue'' (JFloat 0.002),
               tag ''gen_ai.usage.prompt_tokens'' (JStr ''many''),
               tag ''gen_ai.request.temperature'' (JFloat 0.5),
               tag ''gen_ai.response.model'' (JStr ''llama'')])]"



definition span_with_broken_tag :: json where
  "span_with_broken_tag =
     JObj [(''operationName'', JStr ''llm_request''),
           (''tags'', JArr
              [tag ''gen_ai.latency.time_in_queue'' (JFloat 0.002),
               JObj [(''key'', JStr ''gen_ai.latency.e2e'')]])]"

definition typed_span :: json where
  "typed_span =
     JObj [(''operationName'', JStr ''llm_request''),
           (''tags'', JArr
              [tag ''gen_ai.latency.time_in_queue'' (JFloat 0.002),
               tag ''gen_ai.latency.e2e'' (JInt 3),
               tag ''gen_ai.usage.prompt_tokens'' (JStr ''many''),
               tag ''gen_ai.usage.completion_tokens'' (JInt 42),
               tag ''gen_ai.request.max_tokens'' (JFloat 150.9),
               tag ''gen_ai.request.temperature'' (JFloat 0.5),
               tag ''gen_ai.request.top_p'' (JBool True),
               tag ''gen_ai.response.model'' (JStr ''llama'')])]"

section \<open>Properties of the summary aggregator\<close>

lemma collect_latencies_acc:
  "collect_latencies rs (a, b, c, d) =
     (a @ List.map_filter
            (\<lambda>r. case client_ttft r of Some t \<Rightarrow> Some t | None \<Rightarrow> server_ttft r) rs,
      b @ List.map_filter client_tpot rs,
      c @ concat (map (\<lambda>r. map (\<lambda>g. g * 1000) (client_itl_list r)) rs),
      d @ List.map_filter server_queue_time rs)"
  by (induction rs arbitrary: a b c d)
     (auto split: option.splits)

lemma sum_list_ones: "sum_list (map (\<lambda>r. 1::int) xs) = int (length xs)"
  by (induction xs) auto

lemma or_zero_case: "or_zero x = (case x of None \<Rightarrow> 0 | Some n \<Rightarrow> n)"
  by (simp add: or_zero_def split: option.splits)

lemma calculate_stats_mean:
  "fst (calculate_stats vs) = (if vs = [] then 0 else sum_list vs / real (length vs))"
  by (simp add: calculate_stats_def np_mean_def)

lemma calculate_stats_median:
  "fst (snd (calculate_stats vs)) = (if vs = [] then 0 else np_median vs)"
  by (simp add: calculate_stats_def)

lemma calculate_stats_p99:
  "snd (snd (calculate_stats vs)) = (if vs = [] then 0 else np_percentile vs 99)"
  by (simp add: calculate_stats_def)

text \<open>
  Claim C4. For every record list and time bracket the summary has
  total = length of the list, success = number of records with \<open>success\<close> true,
  fail = total - success, duration = end - start; the token totals are summed over the
  successful records with an unset count taken as 0; request throughput is
  success / duration, output-token throughput is total output tokens / duration,
  total-token throughput is (total input + total output) / duration, and each of the
  three is zero when duration \<open>\<le> 0\<close>. For the empty list every count and every throughput
  is 0. The function is total: no input makes it raise.
\<close>

theorem summary_counts_and_throughput:
  fixes results :: "RequestMetrics list" and start_time end_time :: real
  defines "s \<equiv> calculate_benchmark_summary results start_time end_time"
  defines "ok \<equiv> filter success results"
  defines "e \<equiv> calculate_benchmark_summary [] start_time end_time"
  shows "total_requests s = int (length results)
       \<and> successful_requests s = int (length ok)
       \<and> failed_requests s = total_requests s - successful_requests s
       \<and> benchmark_duration s = end_time - start_time
       \<and> total_input_tokens s = (\<Sum>r\<leftarrow>ok. case prompt_tokens r of None \<Rightarrow> 0 | Some n \<Rightarrow> n)
       \<and> total_output_tokens s =
           (\<Sum>r\<leftarrow>ok. case completion_tokens r of None \<Rightarrow> 0 | Some n \<Rightarrow> n)
       \<and> request_throughput s =
           (if end_time - start_time > 0
            then real_of_int (successful_requests s) / (end_time - start_time) else 0)
       \<and> output_token_throughput s =
           (if end_time - start_time > 0
            then real_of_int (total_output_tokens s) / (end_time - start_time) else 0)
       \<and> total_token_throughput s =
           (if end_time - start_time > 0
            then real_of_int (total_input_tokens s + total_output_tokens s)
                   / (end_time - start_time) else 0)
       \<and> total_requests e = 0 \<and> successful_requests e = 0 \<and> failed_requests e = 0
       \<and> total_input_tokens e = 0 \<and> total_output_tokens e = 0
       \<and> request_throughput e = 0 \<and> output_token_throughput e = 0
       \<and> total_token_throughput e = 0"
  unfolding s_def ok_def e_def
  by (simp add: calculate_benchmark_summary_def BenchmarkSummary_init_def Let_def
        sum_list_ones or_zero_case split: prod.splits)

text \<open>
  Claim C5. For every record list the four value collections of the summary are built
  from the successful records only: TTFT takes the client value and falls back to the
  server value only when the client value is absent; TPOT takes one value per record
  that has it; ITL is every element of every gap list times 1000, flattened in order;
  queue time takes the server queue-time field. Mean, median and 99th percentile of each
  collection are the numpy reductions of that collection, and all three are 0 when the
  collection is empty.
\<close>

theorem summary_latency_statistics:
  fixes results :: "RequestMetrics list" and start_time end_time :: real
  defines "s \<equiv> calculate_benchmark_summary results start_time end_time"
  defines "ok \<equiv> filter success results"
  shows "ttft_values s =
           List.map_filter
             (\<lambda>r. case client_ttft r of Some t \<Rightarrow> Some t | None \<Rightarrow> server_ttft r) ok
       \<and> tpot_values s = List.map_filter client_tpot ok
       \<and> itl_values s = concat (map (\<lambda>r. map (\<lambda>g. g * 1000) (client_itl_list r)) ok)
       \<and> queue_time_values s = List.map_filter server_queue_time ok
       \<and> mean_ttft s =
           (if ttft_values s = [] then 0
            else sum_list (ttft_values s) / real (length (ttft_values s)))
       \<and> median_ttft s = (if ttft_values s = [] then 0 else np_median (ttft_values s))
       \<and> p99_ttft s = (if ttft_values s = [] then 0 else np_percentile (ttft_values s) 99)
       \<and> mean_tpot s =
           (if tpot_values s = [] then 0
            else sum_list (tpot_values s) / real (length (tpot_values s)))
       \<and> median_tpot s = (if tpot_values s = [] then 0 else np_median (tpot_values s))
       \<and> p99_tpot s = (if tpot_values s = [] then 0 else np_percentile (tpot_values s) 99)
       \<and> mean_itl s =
           (if itl_values s = [] then 0
            else sum_list (itl_values s) / real (length (itl_values s)))
       \<and> median_itl s = (if itl_values s = [] then 0 else np_median (itl_values s))
       \<and> p99_itl s = (if itl_values s = [] then 0 else np_percentile (itl_values s) 99)
       \<and> mean_queue_time s =
           (if queue_time_values s = [] then 0
            else sum_list (queue_time_values s) / real (length (queue_time_values s)))
       \<and> median_queue_time s =
           (if queue_time_values s = [] then 0 else np_median (queue_time_values s))
       \<and> p99_queue_time s =
           (if queue_time_values s = [] then 0 else np_percentile (queue_time_values s) 99)"
proof (cases "ok = []")
  case True
  then show ?thesis
    unfolding s_def ok_def
    by (simp add: calculate_benchmark_summary_def BenchmarkSummary_init_def Let_def)
next
  case False
  obtain m1 d1 p1 where c1: "calculate_stats
      (List.map_filter
         (\<lambda>r. case client_ttft r of Some t \<Rightarrow> Some t | None \<Rightarrow> server_ttft r) ok)
      = (m1, d1, p1)"
    by (cases "calculate_stats
      (List.map_filter
         (\<lambda>r. case client_ttft r of Some t \<Rightarrow> Some t | None \<Rightarrow> server_ttft r) ok)") auto
  obtain m2 d2 p2 where c2: "calculate_stats (List.map_filter client_tpot ok) = (m2, d2, p2)"
    by (cases "calculate_stats (List.map_filter client_tpot ok)") auto
  obtain m3 d3 p3 where c3: "calculate_stats
      (concat (map (\<lambda>r. map (\<lambda>g. g * 1000) (client_itl_list r)) ok)) = (m3, d3, p3)"
    by (cases "calculate_stats
      (concat (map (\<lambda>r. map (\<lambda>g. g * 1000) (client_itl_list r)) ok))") auto
  obtain m4 d4 p4 where c4:
      "calculate_stats (List.map_filter server_queue_time ok) = (m4, d4, p4)"
    by (cases "calculate_stats (List.map_filter server_queue_time ok)") auto
  have s_eq: "s = (let summary = BenchmarkSummary_init
            \<lparr> total_requests := int (length results),
              successful_requests := int (length ok),
              failed_requests := int (length results) - int (length ok),
              benchmark_duration := end_time - start_time,
              total_input_tokens := sum_list (map (\<lambda>r. or_zero (prompt_tokens r)) ok),
              total_output_tokens := sum_list (map (\<lambda>r. or_zero (completion_tokens r)) ok) \<rparr>;
           summary =
                 (if benchmark_duration summary > 0
                  then summary
                    \<lparr> request_throughput :=
                        real_of_int (successful_requests summary) / benchmark_duration summary,
                      output_token_throughput :=
                        real_of_int (total_output_tokens summary) / benchmark_duration summary,
                      total_token_throughput :=
                        real_of_int (total_input_tokens summary + total_output_tokens summary)
                          / benchmark_duration summary \<rparr>
                  else summary)
        in summary
             \<lparr> ttft_values := List.map_filter
                 (\<lambda>r. case client_ttft r of Some t \<Rightarrow> Some t | None \<Rightarrow> server_ttft r) ok,
               mean_ttft := m1, median_ttft := d1, p99_ttft := p1,
               tpot_values := List.map_filter client_tpot ok,
               mean_tpot := m2, median_tpot := d2, p99_tpot := p2,
               itl_values := concat (map (\<lambda>r. map (\<lambda>g. g * 1000) (client_itl_list r)) ok),
               mean_itl := m3, median_itl := d3, p99_itl := p3,
               queue_time_values := List.map_filter server_queue_time ok,
               mean_queue_time := m4, median_queue_time := d4, p99_queue_time := p4 \<rparr>)"
    using False c1 c2 c3 c4 unfolding s_def ok_def
    by (simp add: calculate_benchmark_summary_def Let_def collect_latencies_acc sum_list_ones)
  have v1: "ttft_values s = List.map_filter
             (\<lambda>r. case client_ttft r of Some t \<Rightarrow> Some t | None \<Rightarrow> server_ttft r) ok"
    and v2: "tpot_values s = List.map_filter client_tpot ok"
    and v3: "itl_values s = concat (map (\<lambda>r. map (\<lambda>g. g * 1000) (client_itl_list r)) ok)"
    and v4: "queue_time_values s = List.map_filter server_queue_time ok"
    and r1: "mean_ttft s = m1" "median_ttft s = d1" "p99_ttft s = p1"
    and r2: "mean_tpot s = m2" "median_tpot s = d2" "p99_tpot s = p2"
    and r3: "mean_itl s = m3" "median_itl s = d3" "p99_itl s = p3"
    and r4: "mean_queue_time s = m4" "median_queue_time s = d4" "p99_queue_time s = p4"
    by (simp_all add: s_eq Let_def)
  have e1: "m1 = fst (calculate_stats (ttft_values s))"
           "d1 = fst (snd (calculate_stats (ttft_values s)))"
           "p1 = snd (snd (calculate_stats (ttft_values s)))"
    by (simp_all add: v1 c1)
  have e2: "m2 = fst (calculate_stats (tpot_values s))"
           "d2 = fst (snd (calculate_stats (tpot_values s)))"
           "p2 = snd (snd (calculate_stats (tpot_values s)))"
    by (simp_all add: v2 c2)
  have e3: "m3 = fst (calculate_stats (itl_values s))"
           "d3 = fst (snd (calculate_stats (itl_values s)))"
           "p3 = snd (snd (calculate_stats (itl_values s)))"
    by (simp_all add: v3 c3)
  have e4: "m4 = fst (calculate_stats (queue_time_values s))"
           "d4 = fst (snd (calculate_stats (queue_time_values s)))"
           "p4 = snd (snd (calculate_stats (queue_time_values s)))"
    by (simp_all add: v4 c4)
  show ?thesis
    unfolding r1 r2 r3 r4 e1 e2 e3 e4
      calculate_stats_mean calculate_stats_median calculate_stats_p99
    using v1 v2 v3 v4 by simp
qed

subsection \<open>The aggregator on the spec's scenarios\<close>

lemma np_percentile_example: "np_percentile [4, 1, 3, 2] 99 = 3.97"
  by (simp add: np_percentile_def Let_def)

lemma np_median_example: "np_median [4, 1, 3, 2] = 2.5" "np_median [5, 1, 3] = 3"
  by (simp_all add: np_median_def Let_def)

lemma output_token_throughput_example:
  "output_token_throughput
     (calculate_benchmark_summary
        (map (\<lambda>n. (RequestMetrics_init ''r'' ''t'')\<lparr> success := True, completion_tokens := Some n \<rparr>)
           [10, 20, 30, 40, 50]) 100 110) = 15"
  by (simp add: calculate_benchmark_summary_def Let_def BenchmarkSummary_init_def
        RequestMetrics_init_def or_zero_def split: prod.splits)

section \<open>Properties of the scheduler\<close>

lemma run_benchmark_positive_rate:
  assumes "r > 0"
  shows "\<exists>tasks. run_benchmark (RateLimitedBenchmark_init r) prompts = Inr tasks
           \<and> length tasks = length prompts
           \<and> (\<forall>i < length prompts.
                 tasks ! i = SendWithDelay i (prompts ! i) (real i * (1 / r)))"
  using assms
  by (simp add: run_benchmark_def RateLimitedBenchmark_init_def nth_enumerate_eq)

lemma run_benchmark_negative_rate:
  assumes "r < 0"
  shows "\<exists>tasks. run_benchmark (RateLimitedBenchmark_init r) prompts = Inr tasks
           \<and> length tasks = length prompts
           \<and> (\<forall>i < length prompts. tasks ! i = SendSingle i (prompts ! i)
                 \<and> start_delay (tasks ! i) = 0)"
  using assms
  by (simp add: run_benchmark_def RateLimitedBenchmark_init_def nth_enumerate_eq)

text \<open>
  Claim C1, at rate 0. The claim says that with \<open>R \<le> 0\<close> all \<open>N\<close> requests are launched
  with zero delay. At \<open>R = 0\<close> the code raises \<^verbatim>\<open>ZeroDivisionError\<close> while printing the
  estimated duration and launches no request, whatever the prompts. (For \<open>R > 0\<close> and
  \<open>R < 0\<close> the code does what the claim says: the two lemmas above.)
\<close>

theorem run_benchmark_zero_rate_raises:
  "run_benchmark (RateLimitedBenchmark_init 0) prompts = Inl ZeroDivisionError"
  by (simp add: run_benchmark_def RateLimitedBenchmark_init_def)

section \<open>Properties of the streaming loop\<close>

lemma stream_loop_Some:
  "stream_loop rt st ((Some raw, t) # rest) fin s m =
     (case line_event rt raw of
        Skip \<Rightarrow> stream_loop rt st rest fin s m
      | Done \<Rightarrow> (None, s, m)
      | Fail e \<Rightarrow> (Some e, s, m)
      | Token c \<Rightarrow>
          stream_loop rt st rest fin
            ((arrival_state s t)\<lparr> text_acc := text_acc s @ c, most_recent_timestamp := t \<rparr>)
            (arrival_metrics st s t m)
      | BadToken \<Rightarrow> (Some TypeError, arrival_state s t, arrival_metrics st s t m))"
  by (simp add: line_event_def arrival_state_def arrival_metrics_def Let_def
        split: option.splits sum.splits json.splits)

lemma line_event_Token_nonempty: "line_event rt raw = Token c \<Longrightarrow> c \<noteq> []"
  by (auto simp: line_event_def split: if_splits option.splits sum.splits json.splits)

declare stream_loop.simps(3) [simp del]

text \<open>Induction over the lines of a stream, one case per kind of line.\<close>

lemma stream_lines_induct [case_names Nil Undecodable Skip Done Fail Token BadToken]:
  assumes "\<And>s m. P [] s m"
    and "\<And>t rest s m. P ((None, t) # rest) s m"
    and "\<And>raw t rest s m. line_event rt raw = Skip \<Longrightarrow> P rest s m
           \<Longrightarrow> P ((Some raw, t) # rest) s m"
    and "\<And>raw t rest s m. line_event rt raw = Done \<Longrightarrow> P ((Some raw, t) # rest) s m"
    and "\<And>raw t rest s m e. line_event rt raw = Fail e \<Longrightarrow> P ((Some raw, t) # rest) s m"
    and "\<And>raw t rest s m c. line_event rt raw = Token c \<Longrightarrow>
           P rest ((arrival_state s t)\<lparr> text_acc := text_acc s @ c, most_recent_timestamp := t \<rparr>)
             (arrival_metrics st s t m)
           \<Longrightarrow> P ((Some raw, t) # rest) s m"
    and "\<And>raw t rest s m. line_event rt raw = BadToken \<Longrightarrow> P ((Some raw, t) # rest) s m"
  shows "P ls s m"
proof (induction ls arbitrary: s m)
  case Nil
  show ?case by (rule assms(1))
next
  case (Cons a ls)
  obtain l t where a: "a = (l, t)" by (cases a)
  show ?case
  proof (cases l)
    case None
    then show ?thesis unfolding a by (simp add: assms(2))
  next
    case (Some raw)
    show ?thesis unfolding a Some
      by (cases "line_event rt raw") (auto intro: assms Cons.IH)
  qed
qed

lemma stream_loop_only_ttft:
  "stream_loop rt st ls fin s m = (r, s', m') \<Longrightarrow> m' = m\<lparr> client_ttft := client_ttft m' \<rparr>"
proof (induction ls s m rule: stream_lines_induct[where rt = rt and st = st])
  case (Token raw t rest s m c)
  then show ?case
    by (cases "first_token_time s") (auto simp: stream_loop_Some arrival_metrics_def)
next
  case (BadToken raw t rest s m)
  then show ?case
    by (cases "first_token_time s") (auto simp: stream_loop_Some arrival_metrics_def)
qed (auto simp: stream_loop_Some)

lemma stream_loop_ttft_source:
  "stream_loop rt st ls fin s m = (r, s', m') \<Longrightarrow>
     client_ttft m' = client_ttft m
     \<or> (\<exists>t \<in> snd ` set ls. client_ttft m' = Some ((t - st) * 1000))"
proof (induction ls s m rule: stream_lines_induct[where rt = rt and st = st])
  case (Token raw t rest s m c)
  then show ?case
    by (cases "first_token_time s") (auto simp: stream_loop_Some arrival_metrics_def)
next
  case (BadToken raw t rest s m)
  then show ?case
    by (cases "first_token_time s") (auto simp: stream_loop_Some arrival_metrics_def)
qed (auto simp: stream_loop_Some)

lemma stream_loop_first_token:
  assumes "stream_loop rt st ls fin s m = (None, s', m')"
    and "first_token_time s = None \<longleftrightarrow> text_acc s = []"
    and "first_token_time s = None \<longleftrightarrow> client_ttft m = None"
  shows "(first_token_time s' = None \<longleftrightarrow> text_acc s' = [])
       \<and> (first_token_time s' = None \<longleftrightarrow> client_ttft m' = None)"
  using assms
proof (induction ls s m rule: stream_lines_induct[where rt = rt and st = st])
  case (Token raw t rest s m c)
  from Token.hyps have "c \<noteq> []" by (rule line_event_Token_nonempty)
  with Token show ?case
    by (cases "first_token_time s")
       (auto simp: stream_loop_Some arrival_metrics_def arrival_state_def)
qed (auto simp: stream_loop_Some)

section \<open>Properties of \<open>send_request\<close>\<close>

declare str_of_nat.simps [simp del]

lemma process_streaming_response_raises:
  assumes "process_streaming_response rt resp m st en = (Some e, m')"
  shows "m' = m\<lparr> client_ttft := client_ttft m' \<rparr>"
    and "client_ttft m' = client_ttft m
         \<or> (\<exists>t \<in> snd ` set (content_lines resp). client_ttft m' = Some ((t - st) * 1000))"
proof -
  obtain r s1 m1 where loop: "stream_loop rt st (content_lines resp) (stream_error resp)
       \<lparr> text_acc = '''', first_token_time = None, inter_token_latencies = [],
         most_recent_timestamp = st \<rparr> m = (r, s1, m1)"
    by (metis prod_cases3)
  with assms have "m' = m1"
    by (auto simp: process_streaming_response_def Let_def split: option.splits if_splits)
  with stream_loop_only_ttft[OF loop] stream_loop_ttft_source[OF loop]
  show "m' = m\<lparr> client_ttft := client_ttft m' \<rparr>"
    and "client_ttft m' = client_ttft m
         \<or> (\<exists>t \<in> snd ` set (content_lines resp). client_ttft m' = Some ((t - st) * 1000))"
    by simp_all
qed

lemma process_streaming_response_returns:
  assumes "process_streaming_response rt resp m st en = (None, m')"
  shows "m' = m
           \<lparr> client_ttft := client_ttft m',
             client_e2e_latency := (en - st) * 1000,
             generated_text := generated_text m',
             client_itl_list := client_itl_list m',
             client_tpot :=
               (if client_itl_list m' = [] then client_tpot m
                else Some (sum_list (client_itl_list m') / real (length (client_itl_list m')) * 1000)),
             client_itl :=
               (if client_itl_list m' = [] then client_itl m
                else Some (sum_list (client_itl_list m') / real (length (client_itl_list m')) * 1000)) \<rparr>"
    and "\<exists>tx. generated_text m' = JStr tx
            \<and> (client_ttft m = None \<longrightarrow> (client_ttft m' = None \<longleftrightarrow> tx = []))"
    and "client_ttft m' = client_ttft m
         \<or> (\<exists>t \<in> snd ` set (content_lines resp). client_ttft m' = Some ((t - st) * 1000))"
proof -
  obtain r s1 m1 where loop: "stream_loop rt st (content_lines resp) (stream_error resp)
       \<lparr> text_acc = '''', first_token_time = None, inter_token_latencies = [],
         most_recent_timestamp = st \<rparr> m = (r, s1, m1)"
    by (metis prod_cases3)
  with assms have r: "r = None"
    by (auto simp: process_streaming_response_def Let_def split: option.splits if_splits)
  define x where "x = client_ttft m1"
  have frame: "m1 = m\<lparr> client_ttft := x \<rparr>"
    using stream_loop_only_ttft[OF loop] by (simp add: x_def)
  have m': "m' = (if inter_token_latencies s1 \<noteq> []
      then m1\<lparr> client_e2e_latency := (en - st) * 1000,
                generated_text := JStr (text_acc s1),
                client_itl_list := inter_token_latencies s1,
                client_tpot := Some (sum_list (inter_token_latencies s1)
                                 / real (length (inter_token_latencies s1)) * 1000),
                client_itl := Some (sum_list (inter_token_latencies s1)
                                 / real (length (inter_token_latencies s1)) * 1000) \<rparr>
      else m1\<lparr> client_e2e_latency := (en - st) * 1000,
                generated_text := JStr (text_acc s1),
                client_itl_list := inter_token_latencies s1 \<rparr>)"
    using assms loop r
    by (auto simp: process_streaming_response_def Let_def split: if_splits)
  have ttft: "client_ttft m' = client_ttft m1" and gen: "generated_text m' = JStr (text_acc s1)"
    by (simp_all add: m')
  have inv: "client_ttft m = None \<longrightarrow> (client_ttft m1 = None \<longleftrightarrow> text_acc s1 = [])"
    using stream_loop_first_token[OF loop[unfolded r]] by auto
  show "client_ttft m' = client_ttft m
         \<or> (\<exists>t \<in> snd ` set (content_lines resp). client_ttft m' = Some ((t - st) * 1000))"
    using stream_loop_ttft_source[OF loop] ttft by simp
  show "\<exists>tx. generated_text m' = JStr tx
            \<and> (client_ttft m = None \<longrightarrow> (client_ttft m' = None \<longleftrightarrow> tx = []))"
    using inv ttft gen by simp
  show "m' = m
           \<lparr> client_ttft := client_ttft m',
             client_e2e_latency := (en - st) * 1000,
             generated_text := generated_text m',
             client_itl_list := client_itl_list m',
             client_tpot :=
               (if client_itl_list m' = [] then client_tpot m
                else Some (sum_list (client_itl_list m') / real (length (client_itl_list m')) * 1000)),
             client_itl :=
               (if client_itl_list m' = [] then client_itl m
                else Some (sum_list (client_itl_list m') / real (length (client_itl_list m')) * 1000)) \<rparr>"
    unfolding m' frame by (cases "inter_token_latencies s1 = []") simp_all
qed

lemma process_non_streaming_response_cases:
  assumes "process_non_streaming_response resp m st en = (r, m')"
  shows "(r \<noteq> None \<and> (m' = m \<or> m' = m\<lparr> client_e2e_latency := (en - st) * 1000 \<rparr>))
       \<or> (r = None \<and> (\<exists>c. m' = m\<lparr> client_e2e_latency := (en - st) * 1000,
                                   generated_text := c \<rparr>))"
proof (cases "json_body resp")
  case (Inl e)
  with assms show ?thesis by (auto simp: process_non_streaming_response_def)
next
  case (Inr response_data)
  define m1 where "m1 = m\<lparr> client_e2e_latency := (en - st) * 1000 \<rparr>"
  have g: "m1 = m\<lparr> client_e2e_latency := (en - st) * 1000,
                     generated_text := generated_text m \<rparr>"
    by (simp add: m1_def)
  have "(r \<noteq> None \<and> m' = m1) \<or> (r = None \<and> (\<exists>c. m' = m1\<lparr> generated_text := c \<rparr>))"
  proof -
    have "(r \<noteq> None \<and> m' = m1) \<or> (r = None \<and> m' = m1)
          \<or> (r = None \<and> (\<exists>c. m' = m1\<lparr> generated_text := c \<rparr>))"
      using assms Inr unfolding process_non_streaming_response_def Let_def m1_def[symmetric]
      by (auto split: sum.splits bool.splits if_splits)
    moreover have "m1 = m1\<lparr> generated_text := generated_text m1 \<rparr>" by simp
    ultimately show ?thesis by metis
  qed
  then show ?thesis unfolding m1_def by auto
qed

lemma send_request_cases:
  fixes rt env messages model temp maxtok topp stream kwargs
  defines "m \<equiv> send_request rt env messages model temp maxtok topp stream kwargs"
  defines "m0 \<equiv> (RequestMetrics_init (uuid_request env)
                     (tc_trace_id (generate_trace_context env)))
                   \<lparr> send_time := Some (wall_clock env) \<rparr>"
  defines "outcome \<equiv> post env (request_data messages model temp maxtok topp stream kwargs)
                       (request_headers (generate_trace_context env) (uuid_request env))"
  defines "E \<equiv> (perf_end env - perf_start env) * 1000"
  defines "from_line \<equiv> (\<lambda>x. x = None \<or>
             (\<exists>resp. outcome = Inr resp \<and>
                (\<exists>t \<in> snd ` set (content_lines resp).
                    x = Some ((t - perf_start env) * 1000))))"
  defines "is_error \<equiv> (\<lambda>err. (\<exists>e. err = str_of_exn rt e) \<or>
             (\<exists>resp tx. outcome = Inr resp \<and> status resp \<noteq> 200 \<and> text_body resp = Inr tx
                \<and> err = ''HTTP '' @ str_of_nat (status resp) @ '': '' @ tx))"
  obtains (failed) err where "is_error err" "m = m0\<lparr> error_message := err \<rparr>"
    | (stream_failed) err x where "stream" "is_error err" "from_line x"
        "m = m0\<lparr> client_ttft := x, error_message := err \<rparr>"
    | (body_failed) err where "\<not> stream" "is_error err"
        "m = m0\<lparr> client_e2e_latency := E, error_message := err \<rparr>"
    | (streamed) x tx gaps where "stream" "from_line x" "x = None \<longleftrightarrow> tx = []"
        "m = m0\<lparr> client_ttft := x, client_e2e_latency := E,
                  generated_text := JStr tx, client_itl_list := gaps,
                  client_tpot := (if gaps = [] then None
                                  else Some (sum_list gaps / real (length gaps) * 1000)),
                  client_itl := (if gaps = [] then None
                                  else Some (sum_list gaps / real (length gaps) * 1000)),
                  success := True \<rparr>"
    | (fetched) c where "\<not> stream"
        "m = m0\<lparr> client_e2e_latency := E, generated_text := c, success := True \<rparr>"
proof (cases outcome)
  case (Inl e)
  then have "m = m0\<lparr> error_message := str_of_exn rt e \<rparr>"
    unfolding m_def m0_def outcome_def by (simp add: send_request_def Let_def)
  moreover have "is_error (str_of_exn rt e)" unfolding is_error_def by blast
  ultimately show ?thesis by (rule failed[rotated])
next
  case (Inr resp)
  show ?thesis
  proof (cases "status resp = 200")
    case False
    show ?thesis
    proof (cases "text_body resp")
      case (Inl e)
      with Inr False have "m = m0\<lparr> error_message := str_of_exn rt e \<rparr>"
        unfolding m_def m0_def outcome_def by (simp add: send_request_def Let_def)
      moreover have "is_error (str_of_exn rt e)" unfolding is_error_def by blast
      ultimately show ?thesis by (rule failed[rotated])
    next
      case (Inr tx)
      with \<open>outcome = Inr resp\<close> False
      have "m = m0\<lparr> error_message := ''HTTP '' @ str_of_nat (status resp) @ '': '' @ tx \<rparr>"
        unfolding m_def m0_def outcome_def by (simp add: send_request_def Let_def)
      moreover have "is_error (''HTTP '' @ str_of_nat (status resp) @ '': '' @ tx)"
        unfolding is_error_def using \<open>outcome = Inr resp\<close> False Inr by blast
      ultimately show ?thesis by (rule failed[rotated])
    qed
  next
    case ok: True
    show ?thesis
    proof (cases stream)
      case True
      obtain r m1 where p: "process_streaming_response rt resp m0 (perf_start env)
                              (perf_end env) = (r, m1)"
        by (cases "process_streaming_response rt resp m0 (perf_start env) (perf_end env)")
      have m0_ttft: "client_ttft m0 = None" "client_tpot m0 = None" "client_itl m0 = None"
        by (simp_all add: m0_def RequestMetrics_init_def)
      show ?thesis
      proof (cases r)
        case None
        with Inr ok True p have m: "m = m1\<lparr> success := True \<rparr>"
          unfolding m_def m0_def outcome_def by (simp add: send_request_def Let_def)
        note ret = process_streaming_response_returns[OF p[unfolded None]]
        from ret(2) obtain tx where G: "generated_text m1 = JStr tx"
          and B: "client_ttft m0 = None \<longrightarrow> (client_ttft m1 = None \<longleftrightarrow> tx = [])"
          by (elim exE conjE)
        have m1: "m1 = m0
           \<lparr> client_ttft := client_ttft m1,
             client_e2e_latency := E,
             generated_text := JStr tx,
             client_itl_list := client_itl_list m1,
             client_tpot :=
               (if client_itl_list m1 = [] then None
                else Some (sum_list (client_itl_list m1) / real (length (client_itl_list m1)) * 1000)),
             client_itl :=
               (if client_itl_list m1 = [] then None
                else Some (sum_list (client_itl_list m1) / real (length (client_itl_list m1)) * 1000)) \<rparr>"
          using ret(1) unfolding E_def m0_ttft G .
        have t: "client_ttft m1 = None \<longleftrightarrow> tx = []"
          using B m0_ttft(1) by blast
        have src: "client_ttft m1 = None
             \<or> (\<exists>t \<in> snd ` set (content_lines resp).
                    client_ttft m1 = Some ((t - perf_start env) * 1000))"
          using ret(3) unfolding m0_ttft .
        have fl: "from_line (client_ttft m1)"
          unfolding from_line_def using src Inr by blast
        have "m = m0\<lparr> client_ttft := client_ttft m1, client_e2e_latency := E,
                        generated_text := JStr tx, client_itl_list := client_itl_list m1,
                        client_tpot := (if client_itl_list m1 = [] then None
                           else Some (sum_list (client_itl_list m1)
                                        / real (length (client_itl_list m1)) * 1000)),
                        client_itl := (if client_itl_list m1 = [] then None
                           else Some (sum_list (client_itl_list m1)
                                        / real (length (client_itl_list m1)) * 1000)),
                        success := True \<rparr>"
          unfolding m by (subst m1) simp
        then show ?thesis by (rule streamed[OF True fl t])
      next
        case (Some e)
        with Inr ok True p have m: "m = m1\<lparr> error_message := str_of_exn rt e \<rparr>"
          unfolding m_def m0_def outcome_def by (simp add: send_request_def Let_def)
        note ret = process_streaming_response_raises[OF p[unfolded Some]]
        have m1: "m1 = m0\<lparr> client_ttft := client_ttft m1 \<rparr>"
          by (rule ret(1))
        have src: "client_ttft m1 = None
             \<or> (\<exists>t \<in> snd ` set (content_lines resp).
                    client_ttft m1 = Some ((t - perf_start env) * 1000))"
          using ret(2) unfolding m0_ttft .
        have fl: "from_line (client_ttft m1)"
          unfolding from_line_def using src Inr by blast
        have er: "is_error (str_of_exn rt e)" unfolding is_error_def by blast
        have "m = m0\<lparr> client_ttft := client_ttft m1,
                                error_message := str_of_exn rt e \<rparr>"
          unfolding m by (subst m1) simp
        then show ?thesis by (rule stream_failed[OF True er fl])
      qed
    next
      case False
      obtain r m1 where p: "process_non_streaming_response resp m0 (perf_start env)
                              (perf_end env) = (r, m1)"
        by (cases "process_non_streaming_response resp m0 (perf_start env) (perf_end env)")
      show ?thesis
      proof (cases r)
        case None
        with Inr ok False p have m: "m = m1\<lparr> success := True \<rparr>"
          unfolding m_def m0_def outcome_def by (simp add: send_request_def Let_def)
        from process_non_streaming_response_cases[OF p] None
        obtain c where "m1 = m0\<lparr> client_e2e_latency := E, generated_text := c \<rparr>"
          unfolding E_def by blast
        with m have "m = m0\<lparr> client_e2e_latency := E, generated_text := c, success := True \<rparr>"
          by simp
        then show ?thesis by (rule fetched[OF False])
      next
        case (Some e)
        with Inr ok False p have m: "m = m1\<lparr> error_message := str_of_exn rt e \<rparr>"
          unfolding m_def m0_def outcome_def by (simp add: send_request_def Let_def)
        have err: "is_error (str_of_exn rt e)" unfolding is_error_def by blast
        from process_non_streaming_response_cases[OF p] Some
        consider "m1 = m0" | "m1 = m0\<lparr> client_e2e_latency := E \<rparr>"
          unfolding E_def by blast
        then show ?thesis
        proof cases
          case 1
          with m have "m = m0\<lparr> error_message := str_of_exn rt e \<rparr>" by simp
          then show ?thesis by (rule failed[OF err])
        next
          case 2
          with m have "m = m0\<lparr> client_e2e_latency := E, error_message := str_of_exn rt e \<rparr>"
            by simp
          then show ?thesis by (rule body_failed[OF False err])
        qed
      qed
    qed
  qed
qed

subsection \<open>The example requests, evaluated\<close>


lemma perf_example:
  "perf_start (example_env resp) = 10" "perf_end (example_env resp) = 12"
  by (simp_all add: example_env_def)

lemma line_event_token: "line_event example_runtime token_line = Token ''Hi''"
  by (simp add: line_event_def example_runtime_def token_line_def token_json_def strip_def
        startswith_def is_space_def delta_content_def)

lemma line_event_done: "line_event example_runtime ''data: [DONE]'' = Done"
  by (simp add: line_event_def example_runtime_def strip_def startswith_def is_space_def)


lemma send_empty:
  "send_request example_runtime (example_env empty_stream) (JArr []) ''auto'' 0.7 100 1 True []
   = (RequestMetrics_init ''123e4567-e89b-42d3-a456-426614174000''
        ''0af7651916cd43dd8448eb211c80319c'')
       \<lparr> send_time := Some 1700000000, client_e2e_latency := 2000, success := True \<rparr>"
  by (simp add: send_request_def example_env_def empty_stream_def example_response_def
        generate_trace_context_def process_streaming_response_def stream_loop_Some
        line_event_done arrival_state_def arrival_metrics_def Let_def RequestMetrics_init_def)

lemma send_two:
  "send_request example_runtime (example_env two_token_stream) (JArr []) ''auto'' 0.7 100 1 True []
   = (RequestMetrics_init ''123e4567-e89b-42d3-a456-426614174000''
        ''0af7651916cd43dd8448eb211c80319c'')
       \<lparr> send_time := Some 1700000000, client_ttft := Some 1000, client_e2e_latency := 2000,
         generated_text := JStr ''HiHi'', client_itl_list := [0.5],
         client_tpot := Some 500, client_itl := Some 500, success := True \<rparr>"
  by (simp add: send_request_def example_env_def two_token_stream_def example_response_def
        generate_trace_context_def process_streaming_response_def stream_loop_Some
        line_event_done line_event_token arrival_state_def arrival_metrics_def Let_def
        RequestMetrics_init_def)

subsection \<open>The gap list, the successful body and the error string\<close>

lemma stream_loop_gaps:
  assumes "stream_loop rt st ls fin s m = (None, s', m')"
  shows "inter_token_latencies s' =
           inter_token_latencies s @
             (case first_token_time s of
                None \<Rightarrow> arrival_gaps (token_arrivals rt ls)
              | Some _ \<Rightarrow> arrival_gaps (most_recent_timestamp s # token_arrivals rt ls))"
  using assms
proof (induction ls s m rule: stream_lines_induct[where rt = rt and st = st])
  case (Token raw t rest s m c)
  then show ?case
    by (cases "first_token_time s") (auto simp: stream_loop_Some arrival_state_def)
qed (auto simp: stream_loop_Some split: option.splits)

lemma process_streaming_response_gaps:
  assumes "process_streaming_response rt resp m st en = (None, m')"
  shows "client_itl_list m' = arrival_gaps (token_arrivals rt (content_lines resp))"
proof -
  obtain r s1 m1 where loop: "stream_loop rt st (content_lines resp) (stream_error resp)
       \<lparr> text_acc = '''', first_token_time = None, inter_token_latencies = [],
         most_recent_timestamp = st \<rparr> m = (r, s1, m1)"
    by (metis prod_cases3)
  with assms have r: "r = None"
    by (auto simp: process_streaming_response_def Let_def split: option.splits if_splits)
  from assms loop r have "client_itl_list m' = inter_token_latencies s1"
    by (auto simp: process_streaming_response_def Let_def split: if_splits)
  with stream_loop_gaps[OF loop[unfolded r]] show ?thesis by simp
qed

lemma send_request_success_body:
  fixes rt env messages model temp maxtok topp stream kwargs
  defines "m \<equiv> send_request rt env messages model temp maxtok topp stream kwargs"
  defines "m0 \<equiv> (RequestMetrics_init (uuid_request env)
                     (tc_trace_id (generate_trace_context env)))
                   \<lparr> send_time := Some (wall_clock env) \<rparr>"
  assumes out: "post env (request_data messages model temp maxtok topp stream kwargs)
                  (request_headers (generate_trace_context env) (uuid_request env)) = Inr resp"
    and ok: "success m"
  shows "status resp = 200
       \<and> (\<exists>m1. (if stream
                  then process_streaming_response rt resp m0 (perf_start env) (perf_end env)
                  else process_non_streaming_response resp m0 (perf_start env) (perf_end env))
                 = (None, m1)
               \<and> m = m1\<lparr> success := True \<rparr>)"
proof -
  have s0: "\<not> success m0" by (simp add: m0_def RequestMetrics_init_def)
  obtain r m1 where p: "(if stream
                  then process_streaming_response rt resp m0 (perf_start env) (perf_end env)
                  else process_non_streaming_response resp m0 (perf_start env) (perf_end env))
                 = (r, m1)"
    by (metis prod.exhaust)
  have st: "status resp = 200"
  proof (rule ccontr)
    assume "status resp \<noteq> 200"
    with out s0 have "\<not> success m"
      unfolding m_def m0_def by (simp add: send_request_def Let_def split: sum.splits)
    with ok show False by simp
  qed
  have m: "m = (case r of Some e \<Rightarrow> m1\<lparr> error_message := str_of_exn rt e \<rparr>
                | None \<Rightarrow> m1\<lparr> success := True \<rparr>)"
    using out st p unfolding m_def m0_def
    by (simp add: send_request_def Let_def split: option.splits)
  have "r = None"
  proof (cases r)
    case (Some e)
    have "\<not> success m1"
    proof (cases stream)
      case True
      with p Some have "m1 = m0\<lparr> client_ttft := client_ttft m1 \<rparr>"
        using process_streaming_response_raises(1)[of rt resp m0 "perf_start env"
                "perf_end env" e m1] by simp
      then have "success m1 = success (m0\<lparr> client_ttft := client_ttft m1 \<rparr>)"
        by (rule arg_cong)
      with s0 show ?thesis by simp
    next
      case False
      with p Some process_non_streaming_response_cases[of resp m0 "perf_start env"
             "perf_end env" r m1]
      have "m1 = m0 \<or> m1 = m0\<lparr> client_e2e_latency := (perf_end env - perf_start env) * 1000 \<rparr>"
        by simp
      with s0 show ?thesis by auto
    qed
    with m Some ok show ?thesis by simp
  qed simp
  with m p st show ?thesis by simp
qed


section \<open>Claims about the record \<open>send_request\<close> returns\<close>

text \<open>
  Claim C3. For every streamed request whose stream ends (the request succeeds), the gap
  list of the record is the list of gaps between consecutive token arrivals of the
  stream, and the record's time-per-output-token and inter-token-latency fields hold the
  same value: the arithmetic mean of that gap list times 1000 when the list is not empty,
  and \<open>None\<close> (not zero) when it is empty.
\<close>

theorem streamed_tpot_itl_mean_of_gaps:
  fixes rt env messages model temp maxtok topp kwargs resp
  defines "m \<equiv> send_request rt env messages model temp maxtok topp True kwargs"
  defines "gap_list \<equiv> arrival_gaps (token_arrivals rt (content_lines resp))"
  assumes out: "post env (request_data messages model temp maxtok topp True kwargs)
                  (request_headers (generate_trace_context env) (uuid_request env)) = Inr resp"
    and ok: "success m"
  shows "client_itl_list m = gap_list
       \<and> client_tpot m = client_itl m
       \<and> client_itl m =
           (if gap_list = [] then None
            else Some (sum_list gap_list / real (length gap_list) * 1000))"
proof -
  from send_request_success_body[OF out ok[unfolded m_def]] obtain m1 where
    p: "process_streaming_response rt resp
          ((RequestMetrics_init (uuid_request env) (tc_trace_id (generate_trace_context env)))
             \<lparr> send_time := Some (wall_clock env) \<rparr>)
          (perf_start env) (perf_end env) = (None, m1)"
    and m: "m = m1\<lparr> success := True \<rparr>"
    unfolding m_def by auto
  from process_streaming_response_gaps[OF p] m
  have gaps: "client_itl_list m = gap_list"
    by (simp add: gap_list_def)
  have "client_tpot m = client_itl m
       \<and> client_itl m =
           (if client_itl_list m = [] then None
            else Some (sum_list (client_itl_list m) / real (length (client_itl_list m)) * 1000))"
    by (cases rule: send_request_cases[where rt = rt and env = env and messages = messages
          and model = model and temp = temp and maxtok = maxtok and topp = topp
          and stream = True and kwargs = kwargs, folded m_def])
       (simp_all add: RequestMetrics_init_def)
  with gaps show ?thesis by simp
qed

theorem streamed_tpot_itl_mean_of_gaps_witness:
  "client_itl_list (send_request example_runtime (example_env two_token_stream) (JArr [])
                      ''auto'' 0.7 100 1 True []) = [0.5]
   \<and> client_tpot (send_request example_runtime (example_env two_token_stream) (JArr [])
                      ''auto'' 0.7 100 1 True []) = Some 500
   \<and> client_itl (send_request example_runtime (example_env two_token_stream) (JArr [])
                      ''auto'' 0.7 100 1 True []) = Some 500
   \<and> client_itl_list (send_request example_runtime (example_env empty_stream) (JArr [])
                      ''auto'' 0.7 100 1 True []) = []
   \<and> client_tpot (send_request example_runtime (example_env empty_stream) (JArr [])
                      ''auto'' 0.7 100 1 True []) = None
   \<and> client_itl (send_request example_runtime (example_env empty_stream) (JArr [])
                      ''auto'' 0.7 100 1 True []) = None"
proof -
  have out2: "post (example_env two_token_stream)
                (request_data (JArr []) ''auto'' 0.7 100 1 True [])
                (request_headers (generate_trace_context (example_env two_token_stream))
                   (uuid_request (example_env two_token_stream))) = Inr two_token_stream"
    by (simp add: example_env_def)
  have ok2: "success (send_request example_runtime (example_env two_token_stream) (JArr [])
                        ''auto'' 0.7 100 1 True [])"
    by (simp add: send_two RequestMetrics_init_def)
  have arr2: "token_arrivals example_runtime (content_lines two_token_stream) = [11, 11.5]"
    by (simp add: two_token_stream_def example_response_def line_event_token line_event_done)
  have out0: "post (example_env empty_stream)
                (request_data (JArr []) ''auto'' 0.7 100 1 True [])
                (request_headers (generate_trace_context (example_env empty_stream))
                   (uuid_request (example_env empty_stream))) = Inr empty_stream"
    by (simp add: example_env_def)
  have ok0: "success (send_request example_runtime (example_env empty_stream) (JArr [])
                        ''auto'' 0.7 100 1 True [])"
    by (simp add: send_empty RequestMetrics_init_def)
  have arr0: "token_arrivals example_runtime (content_lines empty_stream) = []"
    by (simp add: empty_stream_def example_response_def line_event_done)
  from streamed_tpot_itl_mean_of_gaps[OF out2 ok2] streamed_tpot_itl_mean_of_gaps[OF out0 ok0]
  show ?thesis by (simp add: arr2 arr0)
qed




text \<open>
  Claim C7, as stated, fails: a streamed request whose stream ends before any content
  arrives succeeds with the time-to-first-token unset.
\<close>

theorem empty_stream_succeeds_without_ttft:
  "success (send_request example_runtime (example_env empty_stream) (JArr []) ''auto''
              0.7 100 1 True [])
   \<and> client_ttft (send_request example_runtime (example_env empty_stream) (JArr []) ''auto''
              0.7 100 1 True []) = None"
  by (simp add: send_empty RequestMetrics_init_def)

text \<open>
  Claim C7, amended. For every record returned by \<open>send_request\<close> with \<open>success\<close>
  true, the client end-to-end latency is the elapsed time in milliseconds between the two
  readings of the monotonic clock, hence non-negative; if the request was streamed, the
  time-to-first-token is set exactly when some content arrived (the generated text is not
  empty), and when set it is non-negative. The clock is monotonic: no reading is below the
  reading taken before the request.
\<close>

theorem send_request_success_timing:
  fixes rt env messages model temp maxtok topp stream kwargs
  defines "m \<equiv> send_request rt env messages model temp maxtok topp stream kwargs"
  defines "outcome \<equiv> post env (request_data messages model temp maxtok topp stream kwargs)
                       (request_headers (generate_trace_context env) (uuid_request env))"
  assumes ok: "success m"
    and clock: "perf_start env \<le> perf_end env"
    and lines: "\<forall>resp. outcome = Inr resp \<longrightarrow>
                  (\<forall>t \<in> snd ` set (content_lines resp). perf_start env \<le> t)"
  shows "client_e2e_latency m = (perf_end env - perf_start env) * 1000
       \<and> 0 \<le> client_e2e_latency m
       \<and> (stream \<longrightarrow>
            (\<exists>tx. generated_text m = JStr tx \<and> (client_ttft m = None \<longleftrightarrow> tx = []))
            \<and> (\<forall>x. client_ttft m = Some x \<longrightarrow> 0 \<le> x))"
  using ok
proof (cases rule: send_request_cases[where rt = rt and env = env and messages = messages
        and model = model and temp = temp and maxtok = maxtok and topp = topp
        and stream = stream and kwargs = kwargs, folded m_def outcome_def,
        case_names failed stream_failed body_failed streamed fetched])
  case (streamed x tx gaps)
  have "0 \<le> y" if "x = Some y" for y
  proof -
    from streamed(2) that obtain resp t where "outcome = Inr resp"
      "t \<in> snd ` set (content_lines resp)" "y = (t - perf_start env) * 1000"
      by auto
    with lines show ?thesis by auto
  qed
  with streamed clock show ?thesis by (simp add: RequestMetrics_init_def)
next
  case (fetched c)
  with clock show ?thesis by (simp add: RequestMetrics_init_def)
qed (simp_all add: RequestMetrics_init_def)

theorem send_request_success_timing_witness:
  "success (send_request example_runtime (example_env two_token_stream) (JArr []) ''auto''
              0.7 100 1 True [])
   \<and> client_e2e_latency (send_request example_runtime (example_env two_token_stream)
              (JArr []) ''auto'' 0.7 100 1 True []) = 2000
   \<and> client_ttft (send_request example_runtime (example_env two_token_stream)
              (JArr []) ''auto'' 0.7 100 1 True []) = Some 1000"
proof -
  have ok: "success (send_request example_runtime (example_env two_token_stream) (JArr [])
                       ''auto'' 0.7 100 1 True [])"
    by (simp add: send_two RequestMetrics_init_def)
  have clock: "perf_start (example_env two_token_stream) \<le> perf_end (example_env two_token_stream)"
    by (simp add: perf_example)
  have lines: "\<forall>resp. post (example_env two_token_stream)
                    (request_data (JArr []) ''auto'' 0.7 100 1 True [])
                    (request_headers (generate_trace_context (example_env two_token_stream))
                       (uuid_request (example_env two_token_stream))) = Inr resp \<longrightarrow>
                  (\<forall>t \<in> snd ` set (content_lines resp).
                      perf_start (example_env two_token_stream) \<le> t)"
    by (auto simp: example_env_def two_token_stream_def example_response_def)
  from send_request_success_timing[OF ok clock lines] ok show ?thesis
    by (simp add: send_two RequestMetrics_init_def perf_example)
qed

section \<open>Properties of the enrichment\<close>

subsection \<open>The polling loop\<close>

declare poll_loop.simps [simp del]

lemma poll_time_mono: "k \<le> n \<Longrightarrow> poll_time store k \<le> poll_time store n"
  by (induction n) (auto simp: le_Suc_eq)

lemma poll_loop_no_data:
  assumes "\<forall>n\<ge>k. int (poll_time store n) < 1000 * timeout
             \<longrightarrow> try_poll rt (poll_reply (store n)) = None"
  shows "poll_loop rt store timeout (poll_time store k) k = None"
proof -
  have "e = poll_time store k \<Longrightarrow>
        (\<forall>n\<ge>k. int (poll_time store n) < 1000 * timeout
             \<longrightarrow> try_poll rt (poll_reply (store n)) = None) \<Longrightarrow>
        poll_loop rt store timeout e k = None" for e
  proof (induction rt store timeout e k rule: poll_loop.induct)
    case (1 rt store timeout elapsed k)
    show ?case
    proof (cases "int elapsed < 1000 * timeout")
      case False
      then show ?thesis by (subst poll_loop.simps) simp
    next
      case True
      with 1(2,3) have none: "try_poll rt (poll_reply (store k)) = None" by auto
      have "poll_loop rt store timeout (elapsed + poll_cost (store k) + 500) (Suc k) = None"
        using 1(1)[OF True none] 1(2,3) by simp
      with True none show ?thesis by (subst poll_loop.simps) simp
    qed
  qed
  with assms show ?thesis by blast
qed

lemma poll_loop_first_data:
  assumes "k \<le> n"
    and "\<forall>j. k \<le> j \<and> j < n \<longrightarrow> try_poll rt (poll_reply (store j)) = None"
    and "int (poll_time store n) < 1000 * timeout"
    and "try_poll rt (poll_reply (store n)) = Some d"
  shows "poll_loop rt store timeout (poll_time store k) k = Some d"
  using assms
proof (induction "n - k" arbitrary: k)
  case 0
  then have "k = n" by simp
  with 0 show ?case by (subst poll_loop.simps) simp
next
  case (Suc x)
  then have lt: "k < n" by simp
  have "poll_time store k \<le> poll_time store n" using lt by (simp add: poll_time_mono)
  with Suc.prems(3) have in_time: "int (poll_time store k) < 1000 * timeout" by simp
  from Suc.prems(2) lt have none: "try_poll rt (poll_reply (store k)) = None" by simp
  have "poll_loop rt store timeout (poll_time store (Suc k)) (Suc k) = Some d"
    using Suc.hyps(1)[of "Suc k"] Suc.hyps(2) Suc.prems lt by auto
  with in_time none show ?case by (subst poll_loop.simps) (simp add: add.assoc)
qed

lemma poll_loop_data_source:
  "poll_loop rt store timeout elapsed k = Some d \<Longrightarrow>
     \<exists>n td. poll_reply (store n) = GetStatus 200 (Some td)
           \<and> extract_server_metrics_from_trace rt td = Some d"
proof (induction rt store timeout elapsed k rule: poll_loop.induct)
  case (1 rt store timeout elapsed k)
  show ?case
  proof (cases "int elapsed < 1000 * timeout")
    case False
    with 1(2) show ?thesis by (subst (asm) poll_loop.simps) simp
  next
    case True
    show ?thesis
    proof (cases "try_poll rt (poll_reply (store k))")
      case None
      with True 1(2) have "poll_loop rt store timeout (elapsed + poll_cost (store k) + 500)
                             (Suc k) = Some d"
        by (subst (asm) poll_loop.simps) simp
      from 1(1)[OF True None this] show ?thesis .
    next
      case (Some d')
      with True 1(2) have "d' = d" by (subst (asm) poll_loop.simps) simp
      with Some have "try_poll rt (poll_reply (store k)) = Some d" by simp
      then have "\<exists>td. poll_reply (store k) = GetStatus 200 (Some td)
                   \<and> extract_server_metrics_from_trace rt td = Some d"
        by (cases "poll_reply (store k)") (auto split: if_splits option.splits)
      then show ?thesis by blast
    qed
  qed
qed

subsection \<open>The extraction on a trace document\<close>

lemma find_append_case:
  "find P (xs @ ys) = (case find P xs of None \<Rightarrow> find P ys | Some x \<Rightarrow> Some x)"
  by (induction xs) auto

lemma build_tags_entries:
  "list_all (\<lambda>t. tag_entry t \<noteq> None) ts \<Longrightarrow>
     build_tags ts acc = Inr (rev (List.map_filter tag_entry ts) @ acc)"
proof (induction ts arbitrary: acc)
  case Nil
  then show ?case by simp
next
  case (Cons t ts)
  from Cons.prems obtain k v where e: "tag_entry t = Some (k, v)" by auto
  then obtain kvs where t: "t = JObj kvs" by (cases t) auto
  from e t have kv: "map_of kvs ''key'' = Some k" "map_of kvs ''value'' = Some v" "hashable k"
    by (auto split: option.splits if_splits)
  from Cons.prems have "list_all (\<lambda>t. tag_entry t \<noteq> None) ts" by simp
  from Cons.IH[OF this] e t kv show ?case by simp
qed

lemma py_get_operation_name:
  assumes "is_object sp"
  shows "\<exists>n. py_get sp ''operationName'' JNull = Inr n
           \<and> (n = JStr ''llm_request'' \<longleftrightarrow> is_llm_request_span sp)"
proof -
  from assms obtain kvs where "sp = JObj kvs" by (cases sp) auto
  then show ?thesis by (auto split: option.splits)
qed

lemma span_tags_iter:
  assumes "span_tags sp = Some ts"
  shows "\<exists>tv. py_get sp ''tags'' (JArr []) = Inr tv \<and> py_iter tv = Inr ts"
proof -
  from assms obtain kvs where sp: "sp = JObj kvs" by (cases sp) auto
  show ?thesis
  proof (cases "map_of kvs ''tags''")
    case None
    with assms sp show ?thesis by simp
  next
    case (Some tv)
    with assms sp have "tv = JArr ts" by (cases tv) auto
    with Some sp show ?thesis by simp
  qed
qed

lemma scan_spans_document:
  "list_all span_ok sps \<Longrightarrow>
     scan_spans rt sps =
       Inr (case find is_llm_request_span sps of
              None \<Rightarrow> None
            | Some sp \<Rightarrow> Some (server_data_of_tags rt (span_tag_pairs sp)))"
proof (induction sps)
  case Nil
  then show ?case by simp
next
  case (Cons sp sps)
  from Cons.prems have ok: "span_ok sp" and rest: "list_all span_ok sps" by simp_all
  from ok have obj: "is_object sp" by (simp add: span_ok_def)
  from py_get_operation_name[OF obj] obtain n where
    n: "py_get sp ''operationName'' JNull = Inr n"
       "n = JStr ''llm_request'' \<longleftrightarrow> is_llm_request_span sp"
    by blast
  show ?case
  proof (cases "is_llm_request_span sp")
    case False
    with n Cons.IH[OF rest] show ?thesis by simp
  next
    case True
    with ok obtain ts where ts: "span_tags sp = Some ts"
      "list_all (\<lambda>t. tag_entry t \<noteq> None) ts"
      by (auto simp: span_ok_def split: option.splits)
    from span_tags_iter[OF ts(1)] obtain tv where
      tv: "py_get sp ''tags'' (JArr []) = Inr tv" "py_iter tv = Inr ts"
      by blast
    from True n tv build_tags_entries[OF ts(2), of "[]"] ts(1)
    show ?thesis by (simp add: span_tag_pairs_def)
  qed
qed

lemma trace_spans_iter:
  assumes "trace_spans tr = Some sps"
  shows "\<exists>sv. py_get tr ''spans'' (JArr []) = Inr sv \<and> py_iter sv = Inr sps"
proof -
  from assms obtain kvs where tr: "tr = JObj kvs" by (cases tr) auto
  show ?thesis
  proof (cases "map_of kvs ''spans''")
    case None
    with assms tr show ?thesis by simp
  next
    case (Some sv)
    with assms tr have "sv = JArr sps" by (cases sv) auto
    with Some tr show ?thesis by simp
  qed
qed

lemma document_traces_iter:
  assumes "document_traces td = Some trs"
  shows "\<exists>dv. py_get td ''data'' (JArr []) = Inr dv \<and> py_iter dv = Inr trs"
proof -
  from assms obtain kvs where td: "td = JObj kvs" by (cases td) auto
  show ?thesis
  proof (cases "map_of kvs ''data''")
    case None
    with assms td show ?thesis by simp
  next
    case (Some dv)
    with assms td have "dv = JArr trs" by (cases dv) auto
    with Some td show ?thesis by simp
  qed
qed

lemma scan_traces_document:
  "list_all trace_ok trs \<Longrightarrow>
     scan_traces rt trs =
       Inr (case find is_llm_request_span
                   (concat (map (\<lambda>tr. case trace_spans tr of None \<Rightarrow> [] | Some sps \<Rightarrow> sps) trs)) of
              None \<Rightarrow> None
            | Some sp \<Rightarrow> Some (server_data_of_tags rt (span_tag_pairs sp)))"
proof (induction trs)
  case Nil
  then show ?case by simp
next
  case (Cons tr trs)
  from Cons.prems have tr_ok: "trace_ok tr" and rest: "list_all trace_ok trs" by simp_all
  from tr_ok obtain sps where sps: "trace_spans tr = Some sps" "list_all span_ok sps"
    by (auto simp: trace_ok_def split: option.splits)
  from trace_spans_iter[OF sps(1)] obtain sv where
    sv: "py_get tr ''spans'' (JArr []) = Inr sv" "py_iter sv = Inr sps"
    by blast
  show ?case
  proof (cases "find is_llm_request_span sps")
    case None
    with sv sps scan_spans_document[OF sps(2), of rt] Cons.IH[OF rest]
    show ?thesis by (simp add: find_append_case)
  next
    case (Some sp)
    with sv sps scan_spans_document[OF sps(2), of rt]
    show ?thesis by (simp add: find_append_case)
  qed
qed

lemma extract_document:
  assumes "jaeger_document td"
  shows "extract_server_metrics_from_trace rt td =
           (case find is_llm_request_span (document_spans td) of
              None \<Rightarrow> None
            | Some sp \<Rightarrow> Some (server_data_of_tags rt (span_tag_pairs sp)))"
proof -
  from assms obtain trs where trs: "document_traces td = Some trs" "list_all trace_ok trs"
    by (auto simp: jaeger_document_def split: option.splits)
  from document_traces_iter[OF trs(1)] obtain dv where
    "py_get td ''data'' (JArr []) = Inr dv" "py_iter dv = Inr trs"
    by blast
  with scan_traces_document[OF trs(2), of rt] trs(1) show ?thesis
    by (simp add: extract_server_metrics_from_trace_def document_spans_def)
qed

subsection \<open>The example stores, evaluated\<close>

lemma enrich_without_tags:
  "enrich_with_server_metrics example_runtime (late_store (trace_document span_without_tags))
     example_record 10 = (True, example_record)"
  by (simp add: enrich_with_server_metrics_def poll_loop.simps[of _ _ _ 0 0]
        poll_loop.simps[of _ _ _ 520 "Suc 0"]
        late_store_def example_record_def example_trace_id_def RequestMetrics_init_def
        trace_document_def span_without_tags_def extract_server_metrics_from_trace_def
        server_data_of_tags_def tags_get_def safe_float_ms_def safe_float_def safe_int_def)

lemma document_tagged: "jaeger_document (trace_document tagged_span)"
  by (simp add: jaeger_document_def trace_document_def tagged_span_def trace_ok_def span_ok_def
        tag_def)

lemma find_tagged:
  "find is_llm_request_span (document_spans (trace_document tagged_span)) = Some tagged_span"
  by (simp add: document_spans_def trace_document_def tagged_span_def)

lemma pairs_tagged:
  "span_tag_pairs tagged_span =
     [(JStr ''gen_ai.response.model'', JStr ''llama''),
      (JStr ''gen_ai.request.temperature'', JFloat 0.5),
      (JStr ''gen_ai.usage.prompt_tokens'', JStr ''many''),
      (JStr ''gen_ai.latency.time_in_queue'', JFloat 0.002)]"
  by (simp add: span_tag_pairs_def tagged_span_def tag_def)

lemma example_runtime_conversions:
  "float_of_str example_runtime s = None" "int_of_str example_runtime s = None"
  by (simp_all add: example_runtime_def)

lemma late_store_first_poll:
  "try_poll rt (poll_reply (late_store doc tid 0)) = None"
  by (simp add: late_store_def)

lemma late_store_second_poll:
  "poll_reply (late_store doc example_trace_id (Suc 0)) = GetStatus 200 (Some doc)"
  "poll_time (late_store doc tid) (Suc 0) = 520"
  by (simp_all add: late_store_def)

section \<open>Claims about the enrichment\<close>

lemma extract_none_iff_no_span:
  assumes "jaeger_document td"
  shows "extract_server_metrics_from_trace rt td = None
           \<longleftrightarrow> \<not> list_ex is_llm_request_span (document_spans td)"
proof (cases "find is_llm_request_span (document_spans td)")
  case None
  then have "\<not> list_ex is_llm_request_span (document_spans td)"
    by (simp add: find_None_iff list_ex_iff)
  with None show ?thesis by (simp add: extract_document[OF assms])
next
  case (Some sp)
  then have "list_ex is_llm_request_span (document_spans td)"
    by (auto simp: find_Some_iff list_ex_iff)
  with Some show ?thesis by (simp add: extract_document[OF assms])
qed

text \<open>
  Claim C6, as stated, fails: when the trace holds the expected span but none of its
  attributes, the enrichment returns \<open>True\<close>, not \<open>False\<close>.
\<close>

theorem span_without_attributes_returns_true:
  "enrich_with_server_metrics example_runtime
     (late_store (trace_document span_without_tags)) example_record 10 = (True, example_record)
   \<and> span_tags span_without_tags = Some []"
proof -
  have "span_tags span_without_tags = Some []"
    by (simp add: span_without_tags_def)
  then show ?thesis by (simp add: enrich_without_tags)
qed

text \<open>
  Claim C6, amended. For every record and timeout: if no poll made within the timeout
  yields the server data (the request raises, the status is not 200, the body is not
  JSON, or the extraction finds no \<^verbatim>\<open>llm_request\<close> span in it, lemma
  \<open>extract_none_iff_no_span\<close>), then \<open>enrich_with_server_metrics\<close> returns \<open>False\<close> and
  leaves the record as it was, server-side fields, token counts and request parameters
  included; the caller, which uses a timeout of 20 seconds, gets the same record back, with
  its \<open>success\<close> flag untouched.
\<close>

theorem enrich_false_leaves_record:
  assumes "\<forall>k. int (poll_time (jaeger (trace_id m)) k) < 1000 * timeout
             \<longrightarrow> try_poll rt (poll_reply (jaeger (trace_id m) k)) = None"
  shows "enrich_with_server_metrics rt jaeger m timeout = (False, m)
       \<and> (timeout = 20 \<longrightarrow> collect_single_server_metrics rt jaeger m = m)"
proof -
  have "poll_loop rt (jaeger (trace_id m)) timeout (poll_time (jaeger (trace_id m)) 0) 0 = None"
    by (rule poll_loop_no_data) (use assms in blast)
  then show ?thesis
    by (auto simp: enrich_with_server_metrics_def collect_single_server_metrics_def)
qed

theorem enrich_false_leaves_record_witness:
  "enrich_with_server_metrics example_runtime empty_store example_record 1
     = (False, example_record)"
proof -
  have "\<forall>k. int (poll_time (empty_store (trace_id example_record)) k) < 1000 * 1
          \<longrightarrow> try_poll example_runtime (poll_reply (empty_store (trace_id example_record) k))
                = None"
    by (simp add: empty_store_def)
  from enrich_false_leaves_record[where jaeger = empty_store and m = example_record
      and rt = example_runtime and timeout = 1, OF this]
  show ?thesis by simp
qed

text \<open>
  Claim C9, as stated, fails: a poll that obtains a trace containing a span whose
  operation name is \<^verbatim>\<open>llm_request\<close> does not make the call return \<open>True\<close> when a tag of
  that span lacks its \<^verbatim>\<open>value\<close>: the extraction raises inside its \<^verbatim>\<open>try\<close> block and
  returns the empty dictionary, and the call ends with \<open>False\<close>.
\<close>

lemma enrich_broken_tag:
  "enrich_with_server_metrics example_runtime
     (late_store (trace_document span_with_broken_tag)) example_record 1
   = (False, example_record)"
  by (simp add: enrich_with_server_metrics_def poll_loop.simps[of _ _ _ 0 0]
        poll_loop.simps[of _ _ _ 520 "Suc 0"] poll_loop.simps[of _ _ _ 1040 "Suc (Suc 0)"]
        late_store_def example_record_def example_trace_id_def RequestMetrics_init_def
        trace_document_def span_with_broken_tag_def tag_def
        extract_server_metrics_from_trace_def)

theorem llm_request_span_with_broken_tag_returns_false:
  "is_llm_request_span span_with_broken_tag
   \<and> document_spans (trace_document span_with_broken_tag) = [span_with_broken_tag]
   \<and> poll_reply (late_store (trace_document span_with_broken_tag)
                    (trace_id example_record) (Suc 0))
       = GetStatus 200 (Some (trace_document span_with_broken_tag))
   \<and> int (poll_time (late_store (trace_document span_with_broken_tag)
                         (trace_id example_record)) (Suc 0)) < 1000 * 1
   \<and> enrich_with_server_metrics example_runtime
         (late_store (trace_document span_with_broken_tag)) example_record 1
       = (False, example_record)"
proof -
  have "is_llm_request_span span_with_broken_tag"
    by (simp add: span_with_broken_tag_def)
  moreover have "document_spans (trace_document span_with_broken_tag) = [span_with_broken_tag]"
    by (simp add: document_spans_def trace_document_def)
  moreover have "trace_id example_record = example_trace_id"
    by (simp add: example_record_def RequestMetrics_init_def)
  moreover have "int (poll_time (late_store (trace_document span_with_broken_tag)
                         example_trace_id) (Suc 0)) < 1000 * 1"
    by (simp add: late_store_def)
  ultimately show ?thesis
    by (simp add: enrich_broken_tag late_store_second_poll(1))
qed

text \<open>
  Claim C9, amended. \<open>enrich_with_server_metrics\<close> returns \<open>True\<close> at the first poll,
  made within the timeout, that obtains a well-formed trace document (traces, spans and
  tags as the trace store writes them, every tag with a key and a value) with a span
  whose operation name is \<^verbatim>\<open>llm_request\<close>, whatever attributes the span carries. It then
  overwrites the six server timings, the two token counts and the four request
  parameters with the values converted from the tags of the first such span. A timing is
  the tag's number times 1000, a parameter the tag's number, a count the tag's integer
  (a float is truncated towards zero, a string goes through \<^verbatim>\<open>float\<close> or \<^verbatim>\<open>int\<close>); each
  value is \<open>None\<close> (\<open>JNull\<close> for the model) when its tag is missing, and \<open>None\<close> when
  the tag's value is \<^verbatim>\<open>null\<close>, a list, an object or a string that does not convert. So
  \<open>True\<close> does not say that any single field is set.
\<close>

theorem enrich_true_on_llm_request_span:
  fixes rt jaeger m timeout td sp k
  defines "tags \<equiv> span_tag_pairs sp"
  assumes doc: "jaeger_document td"
    and span: "find is_llm_request_span (document_spans td) = Some sp"
    and reply: "poll_reply (jaeger (trace_id m) k) = GetStatus 200 (Some td)"
    and in_time: "int (poll_time (jaeger (trace_id m)) k) < 1000 * timeout"
    and earlier: "\<forall>j<k. try_poll rt (poll_reply (jaeger (trace_id m) j)) = None"
  shows "enrich_with_server_metrics rt jaeger m timeout =
           (True, m
             \<lparr> server_queue_time :=
                 safe_float_ms rt (tags_get tags ''gen_ai.latency.time_in_queue''),
               server_prefill_time :=
                 safe_float_ms rt (tags_get tags ''gen_ai.latency.time_in_model_prefill''),
               server_decode_time :=
                 safe_float_ms rt (tags_get tags ''gen_ai.latency.time_in_model_decode''),
               server_inference_time :=
                 safe_float_ms rt (tags_get tags ''gen_ai.latency.time_in_model_inference''),
               server_e2e_time := safe_float_ms rt (tags_get tags ''gen_ai.latency.e2e''),
               server_ttft :=
                 safe_float_ms rt (tags_get tags ''gen_ai.latency.time_to_first_token''),
               prompt_tokens := safe_int rt (tags_get tags ''gen_ai.usage.prompt_tokens''),
               completion_tokens :=
                 safe_int rt (tags_get tags ''gen_ai.usage.completion_tokens''),
               model_name := tags_get tags ''gen_ai.response.model'',
               temperature := safe_float rt (tags_get tags ''gen_ai.request.temperature''),
               top_p := safe_float rt (tags_get tags ''gen_ai.request.top_p''),
               max_tokens := safe_int rt (tags_get tags ''gen_ai.request.max_tokens'') \<rparr>)
       \<and> (\<forall>name. map_of tags (JStr name) = None \<longrightarrow> tags_get tags name = JNull)
       \<and> (\<forall>name v. map_of tags (JStr name) = Some v \<longrightarrow> tags_get tags name = v)
       \<and> (\<forall>x. safe_float_ms rt (JFloat x) = Some (x * 1000)
              \<and> safe_float rt (JFloat x) = Some x
              \<and> safe_int rt (JFloat x) = Some (if 0 \<le> x then \<lfloor>x\<rfloor> else \<lceil>x\<rceil>))
       \<and> (\<forall>i. safe_float_ms rt (JInt i) = Some (real_of_int i * 1000)
              \<and> safe_float rt (JInt i) = Some (real_of_int i)
              \<and> safe_int rt (JInt i) = Some i)
       \<and> (\<forall>b. safe_float_ms rt (JBool b) = Some (if b then 1000 else 0)
              \<and> safe_float rt (JBool b) = Some (if b then 1 else 0)
              \<and> safe_int rt (JBool b) = Some (if b then 1 else 0))
       \<and> (\<forall>s. safe_float_ms rt (JStr s) = map_option (\<lambda>x. x * 1000) (float_of_str rt s)
              \<and> safe_float rt (JStr s) = float_of_str rt s
              \<and> safe_int rt (JStr s) = int_of_str rt s)
       \<and> (\<forall>v. v = JNull \<or> (\<exists>xs. v = JArr xs) \<or> (\<exists>kvs. v = JObj kvs) \<longrightarrow>
              safe_float_ms rt v = None \<and> safe_float rt v = None \<and> safe_int rt v = None)"
proof -
  have data: "try_poll rt (poll_reply (jaeger (trace_id m) k))
                = Some (server_data_of_tags rt tags)"
    using reply extract_document[OF doc, of rt] span by (simp add: tags_def)
  have "poll_loop rt (jaeger (trace_id m)) timeout (poll_time (jaeger (trace_id m)) 0) 0
          = Some (server_data_of_tags rt tags)"
    by (rule poll_loop_first_data[where n = k]) (use earlier in_time data in auto)
  then have result: "enrich_with_server_metrics rt jaeger m timeout =
           (True, m
             \<lparr> server_queue_time :=
                 safe_float_ms rt (tags_get tags ''gen_ai.latency.time_in_queue''),
               server_prefill_time :=
                 safe_float_ms rt (tags_get tags ''gen_ai.latency.time_in_model_prefill''),
               server_decode_time :=
                 safe_float_ms rt (tags_get tags ''gen_ai.latency.time_in_model_decode''),
               server_inference_time :=
                 safe_float_ms rt (tags_get tags ''gen_ai.latency.time_in_model_inference''),
               server_e2e_time := safe_float_ms rt (tags_get tags ''gen_ai.latency.e2e''),
               server_ttft :=
                 safe_float_ms rt (tags_get tags ''gen_ai.latency.time_to_first_token''),
               prompt_tokens := safe_int rt (tags_get tags ''gen_ai.usage.prompt_tokens''),
               completion_tokens :=
                 safe_int rt (tags_get tags ''gen_ai.usage.completion_tokens''),
               model_name := tags_get tags ''gen_ai.response.model'',
               temperature := safe_float rt (tags_get tags ''gen_ai.request.temperature''),
               top_p := safe_float rt (tags_get tags ''gen_ai.request.top_p''),
               max_tokens := safe_int rt (tags_get tags ''gen_ai.request.max_tokens'') \<rparr>)"
    by (simp add: enrich_with_server_metrics_def server_data_of_tags_def)
  have conv: "(\<forall>name. map_of tags (JStr name) = None \<longrightarrow> tags_get tags name = JNull)
       \<and> (\<forall>name v. map_of tags (JStr name) = Some v \<longrightarrow> tags_get tags name = v)
       \<and> (\<forall>x. safe_float_ms rt (JFloat x) = Some (x * 1000)
              \<and> safe_float rt (JFloat x) = Some x
              \<and> safe_int rt (JFloat x) = Some (if 0 \<le> x then \<lfloor>x\<rfloor> else \<lceil>x\<rceil>))
       \<and> (\<forall>i. safe_float_ms rt (JInt i) = Some (real_of_int i * 1000)
              \<and> safe_float rt (JInt i) = Some (real_of_int i)
              \<and> safe_int rt (JInt i) = Some i)
       \<and> (\<forall>b. safe_float_ms rt (JBool b) = Some (if b then 1000 else 0)
              \<and> safe_float rt (JBool b) = Some (if b then 1 else 0)
              \<and> safe_int rt (JBool b) = Some (if b then 1 else 0))
       \<and> (\<forall>s. safe_float_ms rt (JStr s) = map_option (\<lambda>x. x * 1000) (float_of_str rt s)
              \<and> safe_float rt (JStr s) = float_of_str rt s
              \<and> safe_int rt (JStr s) = int_of_str rt s)
       \<and> (\<forall>v. v = JNull \<or> (\<exists>xs. v = JArr xs) \<or> (\<exists>kvs. v = JObj kvs) \<longrightarrow>
              safe_float_ms rt v = None \<and> safe_float rt v = None \<and> safe_int rt v = None)"
    by (auto simp: tags_get_def safe_float_ms_def safe_float_def safe_int_def
          split: option.splits)
  from result conv show ?thesis by (rule conjI)
qed

lemma pairs_typed:
  "span_tag_pairs typed_span =
     [(JStr ''gen_ai.response.model'', JStr ''llama''),
      (JStr ''gen_ai.request.top_p'', JBool True),
      (JStr ''gen_ai.request.temperature'', JFloat 0.5),
      (JStr ''gen_ai.request.max_tokens'', JFloat 150.9),
      (JStr ''gen_ai.usage.completion_tokens'', JInt 42),
      (JStr ''gen_ai.usage.prompt_tokens'', JStr ''many''),
      (JStr ''gen_ai.latency.e2e'', JInt 3),
      (JStr ''gen_ai.latency.time_in_queue'', JFloat 0.002)]"
  by (simp add: span_tag_pairs_def typed_span_def tag_def)

lemma document_typed: "jaeger_document (trace_document typed_span)"
  by (simp add: jaeger_document_def trace_document_def typed_span_def trace_ok_def span_ok_def
        tag_def)

lemma find_typed:
  "find is_llm_request_span (document_spans (trace_document typed_span)) = Some typed_span"
  by (simp add: document_spans_def trace_document_def typed_span_def)

theorem enrich_true_on_llm_request_span_witness:
  "enrich_with_server_metrics example_runtime (late_store (trace_document typed_span))
     example_record 10 =
     (True, example_record
        \<lparr> server_queue_time := Some 2, server_prefill_time := None,
          server_decode_time := None, server_inference_time := None,
          server_e2e_time := Some 3000, server_ttft := None,
          prompt_tokens := None, completion_tokens := Some 42,
          model_name := JStr ''llama'', temperature := Some 0.5, top_p := Some 1,
          max_tokens := Some 150 \<rparr>)"
proof -
  have tid: "trace_id example_record = example_trace_id"
    by (simp add: example_record_def RequestMetrics_init_def)
  have reply: "poll_reply (late_store (trace_document typed_span) (trace_id example_record)
                 (Suc 0)) = GetStatus 200 (Some (trace_document typed_span))"
    by (simp add: tid late_store_second_poll)
  have in_time: "int (poll_time (late_store (trace_document typed_span)
                   (trace_id example_record)) (Suc 0)) < 1000 * 10"
    by (simp add: late_store_def)
  have earlier: "\<forall>j<Suc 0. try_poll example_runtime
                   (poll_reply (late_store (trace_document typed_span)
                      (trace_id example_record) j)) = None"
    by (simp add: late_store_first_poll)
  from enrich_true_on_llm_request_span[where jaeger = "late_store (trace_document typed_span)"
      and m = example_record and rt = example_runtime and timeout = 10 and k = "Suc 0",
      OF document_typed find_typed reply in_time earlier]
  show ?thesis
    by (simp add: pairs_typed tags_get_def example_runtime_conversions)
qed

text \<open>
  Claim C10. \<open>send_request\<close> never writes the echoed request parameters (model name,
  temperature, top-p, max tokens) or the token counts: they are unset on every record it
  returns, successful or not. A later \<open>enrich_with_server_metrics\<close> that returns
  \<open>False\<close> leaves the record as it is; one that returns \<open>True\<close> sets the six fields to
  the values extracted from a trace document the store returned, not to the values the
  client sent.
\<close>

theorem send_request_leaves_params_unset:
  fixes rt env messages model temp maxtok topp stream kwargs jaeger timeout
  defines "m \<equiv> send_request rt env messages model temp maxtok topp stream kwargs"
  assumes enrich: "enrich_with_server_metrics rt jaeger m timeout = (found, m')"
  shows "prompt_tokens m = None \<and> completion_tokens m = None \<and> model_name m = JNull
       \<and> temperature m = None \<and> top_p m = None \<and> max_tokens m = None
       \<and> (\<not> found \<longrightarrow> m' = m)
       \<and> (found \<longrightarrow>
            (\<exists>n td d. poll_reply (jaeger (trace_id m) n) = GetStatus 200 (Some td)
               \<and> extract_server_metrics_from_trace rt td = Some d
               \<and> prompt_tokens m' = sd_prompt_tokens d
               \<and> completion_tokens m' = sd_completion_tokens d
               \<and> model_name m' = sd_model d
               \<and> temperature m' = sd_temperature d
               \<and> top_p m' = sd_top_p d
               \<and> max_tokens m' = sd_max_tokens d))"
proof -
  have unset: "prompt_tokens m = None \<and> completion_tokens m = None \<and> model_name m = JNull
       \<and> temperature m = None \<and> top_p m = None \<and> max_tokens m = None"
    by (cases rule: send_request_cases[where rt = rt and env = env and messages = messages
          and model = model and temp = temp and maxtok = maxtok and topp = topp
          and stream = stream and kwargs = kwargs, folded m_def])
       (simp_all add: RequestMetrics_init_def)
  show ?thesis
  proof (cases "poll_loop rt (jaeger (trace_id m)) timeout 0 0")
    case None
    with enrich have "\<not> found" "m' = m"
      by (auto simp: enrich_with_server_metrics_def)
    with unset show ?thesis by simp
  next
    case (Some d)
    from poll_loop_data_source[OF Some] obtain n td where
      src: "poll_reply (jaeger (trace_id m) n) = GetStatus 200 (Some td)"
           "extract_server_metrics_from_trace rt td = Some d"
      by blast
    from Some enrich have "found"
      and "prompt_tokens m' = sd_prompt_tokens d"
      and "completion_tokens m' = sd_completion_tokens d"
      and "model_name m' = sd_model d"
      and "temperature m' = sd_temperature d"
      and "top_p m' = sd_top_p d"
      and "max_tokens m' = sd_max_tokens d"
      by (auto simp: enrich_with_server_metrics_def)
    with unset src show ?thesis by blast
  qed
qed

theorem send_request_leaves_params_unset_witness:
  "temperature (send_request example_runtime (example_env two_token_stream) (JArr [])
                  ''auto'' 0.7 100 1 True []) = None
   \<and> temperature (snd (enrich_with_server_metrics example_runtime
                          (late_store (trace_document tagged_span))
                          (send_request example_runtime (example_env two_token_stream)
                             (JArr []) ''auto'' 0.7 100 1 True []) 10)) = Some 0.5"
proof -
  have e: "enrich_with_server_metrics example_runtime
             (late_store (trace_document tagged_span))
             (send_request example_runtime (example_env two_token_stream)
                (JArr []) ''auto'' 0.7 100 1 True []) 10
           = (fst (enrich_with_server_metrics example_runtime
                (late_store (trace_document tagged_span))
                (send_request example_runtime (example_env two_token_stream)
                   (JArr []) ''auto'' 0.7 100 1 True []) 10),
              snd (enrich_with_server_metrics example_runtime
                (late_store (trace_document tagged_span))
                (send_request example_runtime (example_env two_token_stream)
                   (JArr []) ''auto'' 0.7 100 1 True []) 10))"
    by simp
  have v: "enrich_with_server_metrics example_runtime
             (late_store (trace_document tagged_span))
             (send_request example_runtime (example_env two_token_stream)
                (JArr []) ''auto'' 0.7 100 1 True []) 10
           = (True, (send_request example_runtime (example_env two_token_stream)
                (JArr []) ''auto'' 0.7 100 1 True [])
               \<lparr> server_queue_time := Some 2, model_name := JStr ''llama'',
                 temperature := Some 0.5 \<rparr>)"
    by (simp add: send_two enrich_with_server_metrics_def poll_loop.simps[of _ _ _ 0 0]
          poll_loop.simps[of _ _ _ 520 "Suc 0"]
          late_store_def example_trace_id_def RequestMetrics_init_def
          trace_document_def tagged_span_def tag_def extract_server_metrics_from_trace_def
          server_data_of_tags_def tags_get_def safe_float_ms_def safe_float_def safe_int_def
          example_runtime_conversions)
  from send_request_leaves_params_unset[OF e] show ?thesis
    by (simp add: v)
qed

section \<open>Properties of the persisted form\<close>

lemma as_opt_float_opt_float [simp]: "as_opt_float (opt_float x) = Some x"
  by (cases x) (simp_all add: opt_float_def)

lemma as_opt_int_opt_int [simp]: "as_opt_int (opt_int x) = Some x"
  by (cases x) (simp_all add: opt_int_def)

lemma those_as_float [simp]: "those (map (as_float \<circ> JFloat) xs) = Some xs"
  by (induction xs) simp_all



section \<open>Claims about the persisted form\<close>




lemma to_dict_unformattable_time:
  assumes "send_time m = Some t" and "t \<noteq> 0" and "strftime_localtime rt t = Inl e"
  shows "to_dict rt m = Inl e"
  using assms by (simp add: to_dict_def send_time_iso_def)

lemma to_dict_text_without_length:
  assumes "generated_text m = JNull \<or> (\<exists>b. generated_text m = JBool b)
           \<or> (\<exists>i. generated_text m = JInt i) \<or> (\<exists>x. generated_text m = JFloat x)"
  shows "\<exists>e. to_dict rt m = Inl e"
  using assms by (auto simp: to_dict_def split: sum.splits)




end
